theory Spec2Isabelle
  imports Main
begin

section \<open>Python values, strings and exceptions\<close>

text \<open>
  The mixins of \<^verbatim>\<open>mcp_atlassian\<close> are Python methods over an injected REST client.
  A Python \<^verbatim>\<open>str\<close> is modelled as a \<^typ>\<open>string\<close>, one \<^typ>\<open>char\<close> per code point; the
  model therefore covers the code points below 256 (Latin-1). In that range the only
  decimal digits are \<^verbatim>\<open>0\<close> to \<^verbatim>\<open>9\<close>.

  An exception is a value of \<open>exn\<close>; a call that may raise returns \<open>exn + 'a\<close> with
  \<open>Inl\<close> for the raised exception. Errors raised by the interpreter itself carry a short
  tag instead of the interpreter's wording. \<open>Exception prefix cause\<close> stands for
  \<^verbatim>\<open>Exception(f"{prefix}{str(cause)}")\<close> raised \<^verbatim>\<open>from cause\<close>.
\<close>

datatype exn =
    HTTPError string "int option"
  | RequestException string
  | KeyError string
  | ValueError string
  | TypeError string
  | AttributeError string
  | OverflowError string
  | MCPAtlassianAuthenticationError string exn
  | Exception string exn
  | OtherError string

text \<open>
  \<open>HTTPError msg r\<close> is \<^verbatim>\<open>requests.exceptions.HTTPError\<close>; \<open>r\<close> is the status code of
  its \<^verbatim>\<open>response\<close>, \<open>None\<close> when no response is attached. \<open>RequestException\<close> is any
  other \<^verbatim>\<open>requests.RequestException\<close>; \<open>OtherError\<close> any other subclass of
  \<^verbatim>\<open>Exception\<close>. Every value of \<open>exn\<close> is an instance of \<^verbatim>\<open>Exception\<close>.
\<close>

fun is_HTTPError :: "exn \<Rightarrow> bool" where
  "is_HTTPError (HTTPError _ _) = True"
| "is_HTTPError _ = False"

fun is_RequestException :: "exn \<Rightarrow> bool" where
  "is_RequestException (HTTPError _ _) = True"
| "is_RequestException (RequestException _) = True"
| "is_RequestException _ = False"

fun is_ValueError :: "exn \<Rightarrow> bool" where
  "is_ValueError (ValueError _) = True"
| "is_ValueError _ = False"

fun is_MCPAtlassianAuthenticationError :: "exn \<Rightarrow> bool" where
  "is_MCPAtlassianAuthenticationError (MCPAtlassianAuthenticationError _ _) = True"
| "is_MCPAtlassianAuthenticationError _ = False"

text \<open>
  The objects the REST client returns are parsed JSON: \<^verbatim>\<open>None\<close>, booleans, integers,
  strings, lists and dictionaries with string keys (an association list with each key
  at most once, looked up with \<^const>\<open>map_of\<close>).
\<close>

datatype json =
    JNull
  | JBool bool
  | JInt int
  | JStr string
  | JList "json list"
  | JDict "(string \<times> json) list"

fun type_name :: "json \<Rightarrow> string" where
  "type_name JNull = ''NoneType''"
| "type_name (JBool _) = ''bool''"
| "type_name (JInt _) = ''int''"
| "type_name (JStr _) = ''str''"
| "type_name (JList _) = ''list''"
| "type_name (JDict _) = ''dict''"

text \<open>\<^verbatim>\<open>str(type(x))\<close>, as an f-string prints it.\<close>

definition str_type :: "json \<Rightarrow> string" where
  "str_type x = ''<class '' @ [CHR 0x27] @ type_name x @ [CHR 0x27] @ ''>''"

text \<open>\<^verbatim>\<open>d.get(k, default)\<close>: only a dictionary has the method.\<close>

fun py_get :: "json \<Rightarrow> string \<Rightarrow> json \<Rightarrow> exn + json" where
  "py_get (JDict d) k dflt = Inr (case map_of d k of Some v \<Rightarrow> v | None \<Rightarrow> dflt)"
| "py_get x k dflt = Inl (AttributeError (type_name x @ ''.get''))"

text \<open>\<^verbatim>\<open>d[k]\<close> with a string key.\<close>

fun py_getitem :: "json \<Rightarrow> string \<Rightarrow> exn + json" where
  "py_getitem (JDict d) k = (case map_of d k of Some v \<Rightarrow> Inr v | None \<Rightarrow> Inl (KeyError k))"
| "py_getitem x k = Inl (TypeError (type_name x @ ''[str]''))"

text \<open>Truth value of an object, as \<^verbatim>\<open>not x\<close> and \<^verbatim>\<open>if x\<close> test it.\<close>

fun truthy :: "json \<Rightarrow> bool" where
  "truthy JNull = False"
| "truthy (JBool b) = b"
| "truthy (JInt i) = (i \<noteq> 0)"
| "truthy (JStr s) = (s \<noteq> [])"
| "truthy (JList xs) = (xs \<noteq> [])"
| "truthy (JDict d) = (d \<noteq> [])"

text \<open>Sequencing of calls that may raise.\<close>

definition bind :: "exn + 'a \<Rightarrow> ('a \<Rightarrow> exn + 'b) \<Rightarrow> exn + 'b" where
  "bind m f = (case m of Inl e \<Rightarrow> Inl e | Inr x \<Rightarrow> f x)"

text \<open>
  \<^verbatim>\<open>str.lower()\<close>: below code point 256 the cased letters are A to Z and the Latin-1
  capitals C0 to DE without the multiplication sign D7.
\<close>

definition upper_chars :: string where
  "upper_chars = ''ABCDEFGHIJKLMNOPQRSTUVWXYZ'' @
     [CHR 0xC0, CHR 0xC1, CHR 0xC2, CHR 0xC3, CHR 0xC4, CHR 0xC5, CHR 0xC6, CHR 0xC7,
      CHR 0xC8, CHR 0xC9, CHR 0xCA, CHR 0xCB, CHR 0xCC, CHR 0xCD, CHR 0xCE, CHR 0xCF,
      CHR 0xD0, CHR 0xD1, CHR 0xD2, CHR 0xD3, CHR 0xD4, CHR 0xD5, CHR 0xD6,
      CHR 0xD8, CHR 0xD9, CHR 0xDA, CHR 0xDB, CHR 0xDC, CHR 0xDD, CHR 0xDE]"

definition lower_chars :: string where
  "lower_chars = ''abcdefghijklmnopqrstuvwxyz'' @
     [CHR 0xE0, CHR 0xE1, CHR 0xE2, CHR 0xE3, CHR 0xE4, CHR 0xE5, CHR 0xE6, CHR 0xE7,
      CHR 0xE8, CHR 0xE9, CHR 0xEA, CHR 0xEB, CHR 0xEC, CHR 0xED, CHR 0xEE, CHR 0xEF,
      CHR 0xF0, CHR 0xF1, CHR 0xF2, CHR 0xF3, CHR 0xF4, CHR 0xF5, CHR 0xF6,
      CHR 0xF8, CHR 0xF9, CHR 0xFA, CHR 0xFB, CHR 0xFC, CHR 0xFD, CHR 0xFE]"

definition lower_char :: "char \<Rightarrow> char" where
  "lower_char c = (case map_of (zip upper_chars lower_chars) c of Some d \<Rightarrow> d | None \<Rightarrow> c)"

definition lower :: "string \<Rightarrow> string" where
  "lower s = map lower_char s"

subsection \<open>Converting strings to numbers\<close>

definition is_digit :: "char \<Rightarrow> bool" where
  "is_digit c = (c \<in> set ''0123456789'')"

text \<open>
  The white space that \<^verbatim>\<open>int()\<close> and \<^verbatim>\<open>float()\<close> strip from both ends of a \<^verbatim>\<open>str\<close>:
  tab to carriage return and space, and of the characters from 128 on those that are
  Unicode white space, NEL and the no-break space. The separators 1C to 1F are not
  stripped: a character below 128 is stripped only if C's \<^verbatim>\<open>isspace\<close> accepts it.
\<close>

definition is_space :: "char \<Rightarrow> bool" where
  "is_space c = (c \<in> set [CHR 0x09, CHR 0x0A, CHR 0x0B, CHR 0x0C, CHR 0x0D,
     CHR 0x20, CHR 0x85, CHR 0xA0])"

definition strip :: "string \<Rightarrow> string" where
  "strip s = rev (dropWhile is_space (rev (dropWhile is_space s)))"

definition digit_val :: "char \<Rightarrow> int" where
  "digit_val c = of_char c - 48"

definition dec_value :: "string \<Rightarrow> int" where
  "dec_value ds = foldl (\<lambda>a c. 10 * a + digit_val c) 0 ds"

text \<open>Digits with single underscores between them: \<^verbatim>\<open>digit (["_"] digit)*\<close>.\<close>

fun digitpart :: "string \<Rightarrow> bool" where
  "digitpart [] = False"
| "digitpart [c] = is_digit c"
| "digitpart (c # d # cs) =
     (is_digit c \<and> (if d = CHR ''_'' then digitpart cs else digitpart (d # cs)))"

definition split_sign :: "string \<Rightarrow> bool \<times> string" where
  "split_sign s =
     (case s of
        c # r \<Rightarrow> if c = CHR ''-'' then (True, r) else if c = CHR ''+'' then (False, r)
                 else (False, s)
      | [] \<Rightarrow> (False, s))"

text \<open>
  \<^verbatim>\<open>int(s)\<close> for a \<^verbatim>\<open>str\<close>, base 10. The interpreter refuses a literal of more than
  \<^verbatim>\<open>sys.get_int_max_str_digits()\<close> digits with a \<^verbatim>\<open>ValueError\<close>; that setting is the
  parameter \<open>max_str_digits\<close> (4300 by default, 0 for no limit, never checked for 640
  digits or fewer).
\<close>

definition py_int :: "nat \<Rightarrow> string \<Rightarrow> exn + int" where
  "py_int max_str_digits s =
     (let (neg, body) = split_sign (strip s);
          ds = filter (\<lambda>c. c \<noteq> CHR ''_'') body
      in if \<not> digitpart body then Inl (ValueError ''int literal'')
         else if 0 < max_str_digits \<and> 640 < length ds \<and> max_str_digits < length ds
         then Inl (ValueError ''int_max_str_digits'')
         else Inr (if neg then - dec_value ds else dec_value ds))"

text \<open>
  A Python \<^verbatim>\<open>float\<close> is an IEEE 754 binary64 number: \<open>Finite neg q k\<close> is the number
  \<open>q * 2 ^ k\<close> with its sign. \<open>to_binary64 a b\<close> rounds the fraction \<open>a / b\<close> to the
  nearest such number with \<open>q\<close> of at most 53 bits and \<open>k\<close> at least \<open>-1074\<close>, ties to
  even; the result is \<open>None\<close> when it would reach \<open>2 ^ 1024\<close>, where the float is
  infinite.
\<close>

datatype pyfloat = Finite bool int int | Infinite bool | NaN

function bit_length :: "int \<Rightarrow> nat" where
  "bit_length n = (if n \<le> 0 then 0 else Suc (bit_length (n div 2)))"
  by pat_completeness auto
termination
  by (relation "measure nat") auto

text \<open>\<open>a * 2 ^ k \<le> b\<close> for an integer \<open>k\<close> of either sign.\<close>

definition scaled_le :: "int \<Rightarrow> int \<Rightarrow> int \<Rightarrow> bool" where
  "scaled_le a k b = (if 0 \<le> k then a * 2 ^ nat k \<le> b else a \<le> b * 2 ^ nat (- k))"

text \<open>The integer \<open>e\<close> with \<open>2 ^ e \<le> a / b < 2 ^ (e + 1)\<close>, for positive \<open>a\<close> and \<open>b\<close>.\<close>

definition floor_log2 :: "int \<Rightarrow> int \<Rightarrow> int" where
  "floor_log2 a b =
     (let e = int (bit_length a) - int (bit_length b)
      in if scaled_le b e a then e else e - 1)"

definition round_half_even :: "int \<Rightarrow> int \<Rightarrow> int" where
  "round_half_even p q =
     (let f = p div q; r = p mod q
      in if 2 * r < q then f else if q < 2 * r then f + 1
         else if even f then f else f + 1)"

definition to_binary64 :: "int \<Rightarrow> int \<Rightarrow> (int \<times> int) option" where
  "to_binary64 a b =
     (if a = 0 then Some (0, 0)
      else let k = max (floor_log2 a b - 52) (- 1074);
               q = (if 0 \<le> k then round_half_even a (b * 2 ^ nat k)
                    else round_half_even (a * 2 ^ nat (- k)) b)
           in if 0 \<le> k \<and> 2 ^ 1024 \<le> q * 2 ^ nat k then None else Some (q, k))"

text \<open>The float nearest to \<open>m * 10 ^ e\<close>, with sign \<open>neg\<close>.\<close>

definition float_of_decimal :: "bool \<Rightarrow> int \<Rightarrow> int \<Rightarrow> pyfloat" where
  "float_of_decimal neg m e =
     (case (if 0 \<le> e then to_binary64 (m * 10 ^ nat e) 1 else to_binary64 m (10 ^ nat (- e))) of
        None \<Rightarrow> Infinite neg
      | Some (q, k) \<Rightarrow> Finite neg q k)"

text \<open>
  The exponent of a decimal literal: nothing, or \<^verbatim>\<open>e\<close> or \<^verbatim>\<open>E\<close>, an optional sign and
  at least one digit, up to the end of the string.
\<close>

definition parse_exponent :: "string \<Rightarrow> int option" where
  "parse_exponent s =
     (case s of
        [] \<Rightarrow> Some 0
      | c # r \<Rightarrow>
          if c = CHR ''e'' \<or> c = CHR ''E'' then
            (let (neg, ds) = split_sign r
             in if ds \<noteq> [] \<and> list_all is_digit ds
                then Some (if neg then - dec_value ds else dec_value ds)
                else None)
          else None)"

text \<open>
  \<^verbatim>\<open>[digits] "." digits | digits ["."]\<close>, then the exponent: the mantissa digits and
  the power of ten they are scaled by.
\<close>

definition parse_decimal :: "string \<Rightarrow> (int \<times> int) option" where
  "parse_decimal s =
     (let ip = takeWhile is_digit s; r1 = dropWhile is_digit s;
          fp = (case r1 of c # r \<Rightarrow> if c = CHR ''.'' then takeWhile is_digit r else [] | [] \<Rightarrow> []);
          r2 = (case r1 of c # r \<Rightarrow> if c = CHR ''.'' then dropWhile is_digit r else r1 | [] \<Rightarrow> [])
      in if ip @ fp = [] then None
         else case parse_exponent r2 of
                None \<Rightarrow> None
              | Some e \<Rightarrow> Some (dec_value (ip @ fp), e - int (length fp)))"

text \<open>An underscore in a float literal must stand between two digits.\<close>

fun underscores_ok :: "char \<Rightarrow> string \<Rightarrow> bool" where
  "underscores_ok prev [] = (prev \<noteq> CHR ''_'')"
| "underscores_ok prev (c # cs) =
     ((if c = CHR ''_'' then is_digit prev
       else \<not> (prev = CHR ''_'' \<and> \<not> is_digit c)) \<and> underscores_ok c cs)"

text \<open>\<^verbatim>\<open>float(s)\<close> for a \<^verbatim>\<open>str\<close>.\<close>

definition py_float :: "string \<Rightarrow> exn + pyfloat" where
  "py_float s =
     (let t = strip s
      in if \<not> underscores_ok (CHR 0x00) t then Inl (ValueError ''float literal'')
         else let (neg, r) = split_sign (filter (\<lambda>c. c \<noteq> CHR ''_'') t)
              in if lower r = ''inf'' \<or> lower r = ''infinity'' then Inr (Infinite neg)
                 else if lower r = ''nan'' then Inr NaN
                 else case parse_decimal r of
                        None \<Rightarrow> Inl (ValueError ''float literal'')
                      | Some (m, e) \<Rightarrow> Inr (float_of_decimal neg m e))"

text \<open>\<^verbatim>\<open>int(x)\<close> for a \<^verbatim>\<open>float\<close>: truncation towards zero.\<close>

fun int_of_float :: "pyfloat \<Rightarrow> exn + int" where
  "int_of_float (Finite neg q k) =
     (let n = (if 0 \<le> k then q * 2 ^ nat k else q div 2 ^ nat (- k))
      in Inr (if neg then - n else n))"
| "int_of_float (Infinite neg) = Inl (OverflowError ''cannot convert float infinity to integer'')"
| "int_of_float NaN = Inl (ValueError ''cannot convert float NaN to integer'')"

section \<open>Jira worklogs: the duration parser\<close>

text \<open>\<^verbatim>\<open>s.endswith("s")\<close> and \<^verbatim>\<open>s[:-1]\<close>.\<close>

definition endswith_s :: "string \<Rightarrow> bool" where
  "endswith_s s = (s \<noteq> [] \<and> last s = CHR ''s'')"

text \<open>The dictionary \<^verbatim>\<open>time_units\<close>.\<close>

definition time_units :: "char \<rightharpoonup> int" where
  "time_units = [CHR ''w'' \<mapsto> 7 * 24 * 60 * 60, CHR ''d'' \<mapsto> 24 * 60 * 60,
     CHR ''h'' \<mapsto> 60 * 60, CHR ''m'' \<mapsto> 60]"

text \<open>
  The pattern \<^verbatim>\<open>(\d+)([wdhm])\<close> matched at the start of a string: the longest run of
  digits, then a unit letter. Giving back digits of the run cannot help, since the next
  character is then a digit and not a unit letter. The result is the two groups and the
  rest of the string.
\<close>

definition match_at :: "string \<Rightarrow> ((string \<times> char) \<times> string) option" where
  "match_at s =
     (case dropWhile is_digit s of
        [] \<Rightarrow> None
      | u # rest \<Rightarrow>
          if takeWhile is_digit s \<noteq> [] \<and> u \<in> set ''wdhm''
          then Some ((takeWhile is_digit s, u), rest) else None)"

text \<open>
  \<^verbatim>\<open>re.findall(pattern, s)\<close>: the matches from left to right, each search starting where
  the previous match ended, one character further on where there is no match.
\<close>

function findall :: "string \<Rightarrow> (string \<times> char) list" where
  "findall [] = []"
| "findall (c # cs) =
     (case match_at (c # cs) of
        Some (g, rest) \<Rightarrow> g # findall rest
      | None \<Rightarrow> findall cs)"
  by pat_completeness auto
termination
proof (relation "measure length")
  fix c cs x g rest
  assume "match_at (c # cs) = Some x" and "(g, rest) = x"
  then have "dropWhile is_digit (c # cs) = hd (dropWhile is_digit (c # cs)) # rest"
    by (auto simp: match_at_def split: list.splits if_splits)
  then have "length rest < length (dropWhile is_digit (c # cs))"
    by (metis length_Cons lessI)
  also have "\<dots> \<le> length (c # cs)"
    by (rule length_dropWhile_le)
  finally show "(rest, c # cs) \<in> measure length"
    by simp
qed simp_all

text \<open>The loop over the matches, \<^verbatim>\<open>total_seconds\<close> as the accumulator.\<close>

fun add_matches :: "nat \<Rightarrow> int \<Rightarrow> (string \<times> char) list \<Rightarrow> exn + int" where
  "add_matches maxd total_seconds [] = Inr total_seconds"
| "add_matches maxd total_seconds ((val, unit) # matches) =
     (case py_int maxd val of
        Inl e \<Rightarrow> Inl e
      | Inr v \<Rightarrow>
          (case time_units unit of
             None \<Rightarrow> Inl (KeyError [unit])
           | Some u \<Rightarrow> add_matches maxd (total_seconds + v * u) matches))"

text \<open>
  \<^verbatim>\<open>WorklogMixin._parse_time_spent\<close>. \<open>maxd\<close> is the interpreter's
  \<^verbatim>\<open>int_max_str_digits\<close>. Both \<^verbatim>\<open>try\<close> blocks catch \<^verbatim>\<open>ValueError\<close> only.
\<close>

definition seconds_suffix :: "nat \<Rightarrow> string \<Rightarrow> (exn + int) option" where
  "seconds_suffix maxd time_spent =
     (if endswith_s time_spent then
        (case py_int maxd (butlast time_spent) of
           Inr n \<Rightarrow> Some (Inr n)
         | Inl e \<Rightarrow> if is_ValueError e then None else Some (Inl e))
      else None)"

definition raw_value :: "string \<Rightarrow> exn + int" where
  "raw_value time_spent =
     (case bind (py_float time_spent) int_of_float of
        Inr n \<Rightarrow> Inr n
      | Inl e \<Rightarrow> if is_ValueError e then Inr 60 else Inl e)"

definition parse_time_spent :: "nat \<Rightarrow> string \<Rightarrow> exn + int" where
  "parse_time_spent maxd time_spent =
     (case seconds_suffix maxd time_spent of
        Some r \<Rightarrow> r
      | None \<Rightarrow>
          bind (add_matches maxd 0 (findall time_spent))
            (\<lambda>total_seconds.
               if total_seconds = 0 then raw_value time_spent else Inr total_seconds))"

text \<open>
  The algorithm as the specification words it, to compare the method with: the seconds of
  a unit (\<open>w\<close> 604800, \<open>d\<close> 86400, \<open>h\<close> 3600, \<open>m\<close> 60); an attempt is a conversion
  whose failure, whatever it is, leads on to the next step; if the string ends in
  \<open>s\<close> the prefix is tried as an integer, otherwise the matches are summed, a zero sum
  leads to the whole string as a float and then an integer, and 60 is the default.
\<close>

definition unit_seconds :: "char \<Rightarrow> int" where
  "unit_seconds u =
     (if u = CHR ''w'' then 604800 else if u = CHR ''d'' then 86400
      else if u = CHR ''h'' then 3600 else if u = CHR ''m'' then 60 else 0)"

fun attempt :: "exn + 'a \<Rightarrow> 'a option" where
  "attempt (Inr x) = Some x"
| "attempt (Inl e) = None"

definition spec_parse_time_spent :: "nat \<Rightarrow> string \<Rightarrow> int" where
  "spec_parse_time_spent maxd s =
     (case (if endswith_s s then attempt (py_int maxd (butlast s)) else None) of
        Some n \<Rightarrow> n
      | None \<Rightarrow>
          (let total = sum_list (map (\<lambda>(v, u). dec_value v * unit_seconds u) (findall s))
           in if total \<noteq> 0 then total
              else case attempt (bind (py_float s) int_of_float) of
                     Some n \<Rightarrow> n
                   | None \<Rightarrow> 60))"

text \<open>
  The characters of a string that belong to a match of the pattern, in order; what a
  list of matches looks like; and a run of digits longer than the interpreter converts.
\<close>

definition matched_text :: "string \<Rightarrow> string" where
  "matched_text s = concat (map (\<lambda>(v, u). v @ [u]) (findall s))"

definition well_formed_matches :: "(string \<times> char) list \<Rightarrow> bool" where
  "well_formed_matches ms =
     (\<forall>(v, u) \<in> set ms. v \<noteq> [] \<and> list_all is_digit v \<and> u \<in> set ''wdhm'')"

definition over_limit :: "nat \<Rightarrow> string \<Rightarrow> bool" where
  "over_limit maxd v = (0 < maxd \<and> 640 < length v \<and> maxd < length v)"

section \<open>Jira comments: visibility\<close>

text \<open>
  \<^verbatim>\<open>CommentsMixin.add_comment\<close>, lines 74 to 87: the local \<^verbatim>\<open>should_be_internal\<close> as a
  function of \<^verbatim>\<open>self.config.force_internal_comments\<close> and the \<^verbatim>\<open>visibility\<close> argument
  (\<^verbatim>\<open>str | None\<close>).
\<close>

definition should_be_internal :: "bool \<Rightarrow> string option \<Rightarrow> bool" where
  "should_be_internal force_internal_comments visibility =
     (if force_internal_comments then True
      else case visibility of
             None \<Rightarrow> False
           | Some v \<Rightarrow>
               if lower v = ''internal'' then True
               else if lower v = ''public'' then False
               else True)"

section \<open>Jira comments and worklogs: the mixins\<close>

text \<open>
  What the methods reach through \<^verbatim>\<open>self\<close>: the REST client \<^verbatim>\<open>self.jira\<close>, the
  configuration flag, and the helpers that live outside the two modules:
  \<^verbatim>\<open>self._clean_text\<close>, \<^verbatim>\<open>utils.parse_date\<close> (whose result, of some type \<open>'d\<close>, is
  passed to \<^verbatim>\<open>str\<close>) and \<^verbatim>\<open>self.preprocessor.markdown_to_jira\<close>. They are parameters
  of the model, and each of them may raise.
\<close>

record 'd jira_mixin =
  issue_get_comments :: "string \<Rightarrow> exn + json"
  issue_add_comment :: "string \<Rightarrow> string \<Rightarrow> exn + json"
  resource_url :: "string \<Rightarrow> exn + string"
  post :: "string \<Rightarrow> json \<Rightarrow> exn + json"
  issue_get_worklog :: "string \<Rightarrow> exn + json"
  force_internal_comments :: bool
  clean_text :: "json \<Rightarrow> exn + json"
  parse_date :: "json \<Rightarrow> exn + 'd"
  str_date :: "'d \<Rightarrow> string"
  preprocessor_markdown_to_jira :: "string \<Rightarrow> exn + string"

fun is_dict :: "json \<Rightarrow> bool" where
  "is_dict (JDict _) = True"
| "is_dict _ = False"

text \<open>
  \<^verbatim>\<open>x[:limit]\<close>: a negative bound counts from the end. Lists and strings can be sliced;
  for every other object the slice raises (a \<^verbatim>\<open>TypeError\<close>, for a dictionary a
  \<^verbatim>\<open>KeyError\<close> from Python 3.12 on; both are instances of \<^verbatim>\<open>Exception\<close>).
\<close>

definition slice_to :: "'a list \<Rightarrow> int \<Rightarrow> 'a list" where
  "slice_to xs limit =
     (if 0 \<le> limit then take (nat limit) xs else take (nat (int (length xs) + limit)) xs)"

fun py_slice_to :: "json \<Rightarrow> int \<Rightarrow> exn + json" where
  "py_slice_to (JList xs) limit = Inr (JList (slice_to xs limit))"
| "py_slice_to (JStr s) limit = Inr (JStr (slice_to s limit))"
| "py_slice_to x limit = Inl (TypeError (type_name x @ ''[:]''))"

text \<open>\<^verbatim>\<open>for x in xs\<close>: the elements of a list, the characters of a string, the keys of
  a dictionary.\<close>

fun py_iter :: "json \<Rightarrow> exn + json list" where
  "py_iter (JList xs) = Inr xs"
| "py_iter (JStr s) = Inr (map (\<lambda>c. JStr [c]) s)"
| "py_iter (JDict d) = Inr (map (\<lambda>kv. JStr (fst kv)) d)"
| "py_iter x = Inl (TypeError (type_name x @ '' is not iterable''))"

text \<open>A loop that appends one result per element and stops at the first exception.\<close>

fun for_each :: "('a \<Rightarrow> exn + 'b) \<Rightarrow> 'a list \<Rightarrow> exn + 'b list" where
  "for_each f [] = Inr []"
| "for_each f (x # xs) = bind (f x) (\<lambda>y. bind (for_each f xs) (\<lambda>ys. Inr (y # ys)))"

text \<open>The dictionary built for one comment, \<^verbatim>\<open>get_issue_comments\<close> lines 41 to 47.\<close>

definition processed_comment :: "'d jira_mixin \<Rightarrow> json \<Rightarrow> exn + json" where
  "processed_comment self comment =
     bind (py_get comment ''id'' JNull) (\<lambda>cid.
     bind (py_get comment ''body'' (JStr [])) (\<lambda>b.
     bind (clean_text self b) (\<lambda>body.
     bind (py_get comment ''created'' JNull) (\<lambda>c.
     bind (parse_date self c) (\<lambda>created.
     bind (py_get comment ''updated'' JNull) (\<lambda>u.
     bind (parse_date self u) (\<lambda>updated.
     bind (py_get comment ''author'' (JDict [])) (\<lambda>a.
     bind (py_get a ''displayName'' (JStr ''Unknown'')) (\<lambda>author.
       Inr (JDict [(''id'', cid), (''body'', body),
                   (''created'', JStr (str_date self created)),
                   (''updated'', JStr (str_date self updated)),
                   (''author'', author)]))))))))))"

text \<open>\<^verbatim>\<open>CommentsMixin.get_issue_comments\<close>.\<close>

definition get_issue_comments :: "'d jira_mixin \<Rightarrow> string \<Rightarrow> int \<Rightarrow> exn + json list" where
  "get_issue_comments self issue_key limit =
     (case bind (issue_get_comments self issue_key) (\<lambda>comments.
             if \<not> is_dict comments
             then Inl (TypeError (''Unexpected return value type from `jira.issue_get_comments`: ''
                                  @ str_type comments))
             else bind (py_get comments ''comments'' (JList [])) (\<lambda>cs.
                  bind (py_slice_to cs limit) (\<lambda>sl.
                  bind (py_iter sl) (for_each (processed_comment self))))) of
        Inr processed_comments \<Rightarrow> Inr processed_comments
      | Inl e \<Rightarrow> Inl (Exception ''Error getting comments: '' e))"

text \<open>\<^verbatim>\<open>CommentsMixin._markdown_to_jira\<close>: never raises.\<close>

definition markdown_to_jira :: "'d jira_mixin \<Rightarrow> string \<Rightarrow> string" where
  "markdown_to_jira self markdown_text =
     (if markdown_text = [] then []
      else case preprocessor_markdown_to_jira self markdown_text of
             Inr t \<Rightarrow> t
           | Inl e \<Rightarrow> markdown_text)"

text \<open>
  The calls a method makes on \<^verbatim>\<open>self.jira\<close> are recorded in the order they are made,
  each with its arguments.
\<close>

datatype jira_call =
    Call_resource_url string
  | Call_post string json
  | Call_issue_add_comment string string

definition comment_data :: "string \<Rightarrow> json" where
  "comment_data jira_formatted_comment =
     JDict [(''body'', JStr jira_formatted_comment),
            (''properties'',
               JList [JDict [(''key'', JStr ''sd.public.comment''),
                             (''value'', JDict [(''internal'', JBool True)])]])]"

text \<open>The dictionary \<^verbatim>\<open>add_comment\<close> returns, lines 110 to 120.\<close>

definition added_comment :: "'d jira_mixin \<Rightarrow> json \<Rightarrow> exn + json" where
  "added_comment self result =
     (if \<not> is_dict result
      then Inl (TypeError (''Unexpected return value type from comment API: '' @ str_type result))
      else
        bind (py_get result ''id'' JNull) (\<lambda>cid.
        bind (py_get result ''body'' (JStr [])) (\<lambda>b.
        bind (clean_text self b) (\<lambda>body.
        bind (py_get result ''created'' JNull) (\<lambda>c.
        bind (parse_date self c) (\<lambda>created.
        bind (py_get result ''author'' (JDict [])) (\<lambda>a.
        bind (py_get a ''displayName'' (JStr ''Unknown'')) (\<lambda>author.
          Inr (JDict [(''id'', cid), (''body'', body),
                      (''created'', JStr (str_date self created)),
                      (''author'', author)])))))))))"

text \<open>
  \<^verbatim>\<open>CommentsMixin.add_comment\<close>: the calls made on the client, and the value returned or
  the exception raised.
\<close>

definition add_comment ::
  "'d jira_mixin \<Rightarrow> string \<Rightarrow> string \<Rightarrow> string option \<Rightarrow> jira_call list \<times> (exn + json)" where
  "add_comment self issue_key comment visibility =
     (let jira_formatted_comment = markdown_to_jira self comment;
          (calls, result) =
            (if should_be_internal (force_internal_comments self) visibility then
               (case resource_url self ''issue'' of
                  Inl e \<Rightarrow> ([Call_resource_url ''issue''], Inl e)
                | Inr base_url \<Rightarrow>
                    (let url = base_url @ ''/'' @ issue_key @ ''/comment''
                     in ([Call_resource_url ''issue'',
                          Call_post url (comment_data jira_formatted_comment)],
                         post self url (comment_data jira_formatted_comment))))
             else ([Call_issue_add_comment issue_key jira_formatted_comment],
                   issue_add_comment self issue_key jira_formatted_comment))
      in (calls,
          case bind result (added_comment self) of
            Inr r \<Rightarrow> Inr r
          | Inl e \<Rightarrow> Inl (Exception ''Error adding comment: '' e)))"

text \<open>The dictionary built for one worklog, \<^verbatim>\<open>get_worklogs\<close> lines 124 to 135.\<close>

definition processed_worklog :: "'d jira_mixin \<Rightarrow> json \<Rightarrow> exn + json" where
  "processed_worklog self worklog =
     bind (py_get worklog ''id'' JNull) (\<lambda>wid.
     bind (py_get worklog ''comment'' (JStr [])) (\<lambda>c.
     bind (clean_text self c) (\<lambda>comment.
     bind (py_get worklog ''created'' (JStr [])) (\<lambda>cr.
     bind (parse_date self cr) (\<lambda>created.
     bind (py_get worklog ''updated'' (JStr [])) (\<lambda>up.
     bind (parse_date self up) (\<lambda>updated.
     bind (py_get worklog ''started'' (JStr [])) (\<lambda>st.
     bind (parse_date self st) (\<lambda>started.
     bind (py_get worklog ''timeSpent'' (JStr [])) (\<lambda>time_spent.
     bind (py_get worklog ''timeSpentSeconds'' (JInt 0)) (\<lambda>seconds.
     bind (py_get worklog ''author'' (JDict [])) (\<lambda>a.
     bind (py_get a ''displayName'' (JStr ''Unknown'')) (\<lambda>author.
       Inr (JDict [(''id'', wid), (''comment'', comment),
                   (''created'', JStr (str_date self created)),
                   (''updated'', JStr (str_date self updated)),
                   (''started'', JStr (str_date self started)),
                   (''timeSpent'', time_spent),
                   (''timeSpentSeconds'', seconds),
                   (''author'', author)]))))))))))))))"

text \<open>\<^verbatim>\<open>WorklogMixin.get_worklogs\<close>.\<close>

definition get_worklogs :: "'d jira_mixin \<Rightarrow> string \<Rightarrow> exn + json list" where
  "get_worklogs self issue_key =
     (case bind (issue_get_worklog self issue_key) (\<lambda>result.
             if \<not> is_dict result
             then Inl (TypeError (''Unexpected return value type from `jira.issue_get_worklog`: ''
                                  @ str_type result))
             else bind (py_get result ''worklogs'' (JList [])) (\<lambda>ws.
                  bind (py_iter ws) (for_each (processed_worklog self)))) of
        Inr worklogs \<Rightarrow> Inr worklogs
      | Inl e \<Rightarrow> Inl (Exception ''Error getting worklogs: '' e))"

text \<open>
  Two conditions on a comment or worklog record: its \<^verbatim>\<open>author\<close> entry is absent or a
  dictionary; and, beyond that, there is no \<^verbatim>\<open>displayName\<close> in it. An \<^verbatim>\<open>author\<close> that
  is present but no dictionary (a \<^verbatim>\<open>null\<close>, say) makes \<^verbatim>\<open>.get\<close> raise.
\<close>

definition author_is_object :: "(string \<times> json) list \<Rightarrow> bool" where
  "author_is_object d = (case map_of d ''author'' of None \<Rightarrow> True | Some a \<Rightarrow> is_dict a)"

definition lacks_display_name :: "(string \<times> json) list \<Rightarrow> bool" where
  "lacks_display_name d =
     (case map_of d ''author'' of
        None \<Rightarrow> True
      | Some (JDict a) \<Rightarrow> map_of a ''displayName'' = None
      | Some _ \<Rightarrow> False)"

subsection \<open>The fixtures of the unit tests\<close>

text \<open>
  The mixin of \<^verbatim>\<open>tests/unit/jira/test_comments.py\<close>: a client whose calls all return
  the same response, \<^verbatim>\<open>_clean_text\<close> the identity, a preprocessor with a fixed result.
  The date parser is stood in for by the identity, printed as the string itself.
\<close>

definition comments_mixin :: "bool \<Rightarrow> json \<Rightarrow> json jira_mixin" where
  "comments_mixin force response =
     \<lparr>issue_get_comments = (\<lambda>k. Inr response),
      issue_add_comment = (\<lambda>k t. Inr response),
      resource_url = (\<lambda>r. Inr (''https://test.atlassian.net/rest/api/2/'' @ r)),
      post = (\<lambda>u d. Inr response),
      issue_get_worklog = (\<lambda>k. Inr response),
      force_internal_comments = force,
      clean_text = Inr,
      parse_date = Inr,
      str_date = (\<lambda>d. case d of JStr s \<Rightarrow> s | _ \<Rightarrow> ''None''),
      preprocessor_markdown_to_jira = (\<lambda>t. Inr ''*This* is _Jira_ formatted'')\<rparr>"

text \<open>The records of the tests on the limit and on missing fields.\<close>

definition three_comments :: "json list" where
  "three_comments =
     [JDict [(''id'', JStr ''10001''), (''body'', JStr ''First comment''),
             (''created'', JStr ''2024-01-01T10:00:00.000+0000''),
             (''author'', JDict [(''displayName'', JStr ''John Doe'')])],
      JDict [(''id'', JStr ''10002''), (''body'', JStr ''Second comment''),
             (''created'', JStr ''2024-01-02T10:00:00.000+0000''),
             (''author'', JDict [(''displayName'', JStr ''Jane Smith'')])],
      JDict [(''id'', JStr ''10003''), (''body'', JStr ''Third comment''),
             (''created'', JStr ''2024-01-03T10:00:00.000+0000''),
             (''author'', JDict [(''displayName'', JStr ''Bob Johnson'')])]]"

definition processed_three :: "json list" where
  "processed_three =
     [JDict [(''id'', JStr ''10001''), (''body'', JStr ''First comment''),
             (''created'', JStr ''2024-01-01T10:00:00.000+0000''), (''updated'', JStr ''None''),
             (''author'', JStr ''John Doe'')],
      JDict [(''id'', JStr ''10002''), (''body'', JStr ''Second comment''),
             (''created'', JStr ''2024-01-02T10:00:00.000+0000''), (''updated'', JStr ''None''),
             (''author'', JStr ''Jane Smith'')],
      JDict [(''id'', JStr ''10003''), (''body'', JStr ''Third comment''),
             (''created'', JStr ''2024-01-03T10:00:00.000+0000''), (''updated'', JStr ''None''),
             (''author'', JStr ''Bob Johnson'')]]"

definition comment_missing_fields :: "(string \<times> json) list" where
  "comment_missing_fields =
     [(''id'', JStr ''10001''), (''created'', JStr ''2024-01-01T10:00:00.000+0000'')]"

definition worklog_missing_fields :: "(string \<times> json) list" where
  "worklog_missing_fields =
     [(''id'', JStr ''10001''), (''created'', JStr ''2024-01-01T10:00:00.000+0000'')]"

definition posted_comment :: json where
  "posted_comment =
     JDict [(''id'', JStr ''10001''), (''body'', JStr ''This is an internal comment''),
            (''created'', JStr ''2024-01-01T10:00:00.000+0000''),
            (''author'', JDict [(''displayName'', JStr ''John Doe'')])]"

section \<open>Confluence pages\<close>

text \<open>\<^verbatim>\<open>str(n)\<close> for an integer, as an f-string prints it.\<close>

function str_nat :: "nat \<Rightarrow> string" where
  "str_nat n =
     (if n < 10 then [''0123456789'' ! n]
      else str_nat (n div 10) @ [''0123456789'' ! (n mod 10)])"
  by pat_completeness auto
termination
  by (relation "measure id") auto

definition str_int :: "int \<Rightarrow> string" where
  "str_int i = (if i < 0 then CHR ''-'' # str_nat (nat (- i)) else str_nat (nat i))"

text \<open>
  The keyword arguments of \<^verbatim>\<open>ConfluencePage.from_api_response\<close>; an argument the call
  leaves out is \<open>None\<close>.
\<close>

record page_args =
  base_url :: string
  include_body :: bool
  content_override :: "string option"
  content_format :: "string option"
  is_cloud_arg :: "bool option"

text \<open>
  What \<^verbatim>\<open>PagesMixin\<close> reaches through \<^verbatim>\<open>self\<close>: the methods of the REST client
  \<^verbatim>\<open>self.confluence\<close>, the preprocessor, the configuration, and the model constructor
  \<^verbatim>\<open>ConfluencePage.from_api_response\<close>, which builds a page of some type \<open>'p\<close>. All of
  them are defined outside the module and are parameters here. A page id is passed on
  as the object it is (the id of a created page comes out of a response); the keyword
  arguments of \<^verbatim>\<open>update_page\<close> are passed as the dictionary the method builds.
\<close>

record 'p pages_mixin =
  get_page_by_id :: "json \<Rightarrow> string \<Rightarrow> exn + json"
  confluence_get_page_ancestors :: "string \<Rightarrow> exn + json"
  get_all_spaces :: "int \<Rightarrow> int \<Rightarrow> exn + json"
  confluence_get_page_by_title :: "string \<Rightarrow> string \<Rightarrow> string \<Rightarrow> exn + json"
  get_all_pages_from_space :: "string \<Rightarrow> int \<Rightarrow> int \<Rightarrow> string \<Rightarrow> exn + json"
  confluence_create_page ::
    "string \<Rightarrow> string \<Rightarrow> string \<Rightarrow> string option \<Rightarrow> string \<Rightarrow> exn + json"
  confluence_update_page :: "json \<Rightarrow> exn + json"
  get_page_child_by_type :: "string \<Rightarrow> string \<Rightarrow> int \<Rightarrow> int \<Rightarrow> string \<Rightarrow> exn + json"
  process_html_content :: "json \<Rightarrow> json \<Rightarrow> exn + string \<times> string"
  markdown_to_confluence_storage :: "string \<Rightarrow> exn + string"
  from_api_response :: "json \<Rightarrow> page_args \<Rightarrow> exn + 'p"
  config_url :: string
  config_is_cloud :: bool

text \<open>
  The clause \<^verbatim>\<open>except HTTPError as http_err\<close> of \<^verbatim>\<open>get_page_content\<close> and
  \<^verbatim>\<open>get_page_ancestors\<close>: the exception that leaves the clause.
\<close>

fun http_error_clause :: "exn \<Rightarrow> exn" where
  "http_error_clause (HTTPError msg (Some status_code)) =
     (if status_code \<in> set [401, 403]
      then MCPAtlassianAuthenticationError
             (''Authentication failed for Confluence API ('' @ str_int status_code @ ''). '' @
              ''Token may be expired or invalid. Please verify credentials.'')
             (HTTPError msg (Some status_code))
      else HTTPError msg (Some status_code))"
| "http_error_clause e = e"

text \<open>\<^verbatim>\<open>PagesMixin.get_page_content\<close>.\<close>

definition get_page_content :: "'p pages_mixin \<Rightarrow> json \<Rightarrow> bool \<Rightarrow> exn + 'p" where
  "get_page_content self page_id convert_to_markdown =
     (case bind (get_page_by_id self page_id ''body.storage,version,space,children.attachment'')
             (\<lambda>page.
           bind (py_get page ''space'' (JDict [])) (\<lambda>sp.
           bind (py_get sp ''key'' (JStr [])) (\<lambda>space_key.
           bind (py_getitem page ''body'') (\<lambda>b.
           bind (py_getitem b ''storage'') (\<lambda>st.
           bind (py_getitem st ''value'') (\<lambda>content.
           bind (process_html_content self content space_key)
             (\<lambda>(processed_html, processed_markdown).
           from_api_response self page
             \<lparr>base_url = config_url self, include_body = True,
              content_override =
                Some (if convert_to_markdown then processed_markdown else processed_html),
              content_format = Some (if \<not> convert_to_markdown then ''storage'' else ''markdown''),
              is_cloud_arg = Some (config_is_cloud self)\<rparr>))))))) of
        Inr page_model \<Rightarrow> Inr page_model
      | Inl e \<Rightarrow>
          if is_HTTPError e then Inl (http_error_clause e)
          else Inl (Exception ''Error retrieving page content: '' e))"

text \<open>\<^verbatim>\<open>PagesMixin.get_page_ancestors\<close>.\<close>

definition get_page_ancestors :: "'p pages_mixin \<Rightarrow> string \<Rightarrow> exn + 'p list" where
  "get_page_ancestors self page_id =
     (case bind (confluence_get_page_ancestors self page_id) (\<lambda>ancestors.
           bind (py_iter ancestors)
             (for_each (\<lambda>ancestor.
                from_api_response self ancestor
                  \<lparr>base_url = config_url self, include_body = False, content_override = None,
                   content_format = None, is_cloud_arg = None\<rparr>))) of
        Inr ancestor_models \<Rightarrow> Inr ancestor_models
      | Inl e \<Rightarrow> if is_HTTPError e then Inl (http_error_clause e) else Inr [])"

text \<open>\<^verbatim>\<open>k in x\<close> for a string \<open>k\<close>, and \<^verbatim>\<open>x[0]\<close>.\<close>

fun contains :: "string \<Rightarrow> string \<Rightarrow> bool" where
  "contains sub [] = (sub = [])"
| "contains sub (c # cs) = (take (length sub) (c # cs) = sub \<or> contains sub cs)"

fun py_in :: "string \<Rightarrow> json \<Rightarrow> exn + bool" where
  "py_in k (JDict d) = Inr (k \<in> set (map fst d))"
| "py_in k (JList xs) = Inr (JStr k \<in> set xs)"
| "py_in k (JStr s) = Inr (contains k s)"
| "py_in k x = Inl (TypeError (type_name x @ '' is not iterable''))"

fun py_first :: "json \<Rightarrow> exn + json" where
  "py_first (JList (x # xs)) = Inr x"
| "py_first (JList []) = Inl (OtherError ''IndexError'')"
| "py_first (JStr (c # cs)) = Inr (JStr [c])"
| "py_first (JStr []) = Inl (OtherError ''IndexError'')"
| "py_first (JDict d) = Inl (KeyError ''0'')"
| "py_first x = Inl (TypeError (type_name x @ ''[0]''))"

fun is_KeyError :: "exn \<Rightarrow> bool" where
  "is_KeyError (KeyError _) = True"
| "is_KeyError _ = False"

fun is_TypeError :: "exn \<Rightarrow> bool" where
  "is_TypeError (TypeError _) = True"
| "is_TypeError _ = False"

text \<open>The list comprehension \<^verbatim>\<open>[s["key"] for s in xs]\<close>.\<close>

definition keys_of :: "json \<Rightarrow> exn + json list" where
  "keys_of xs = bind (py_iter xs) (for_each (\<lambda>s. py_getitem s ''key''))"

text \<open>The body of the \<^verbatim>\<open>try\<close> statement of \<^verbatim>\<open>get_page_by_title\<close>.\<close>

definition page_by_title_body ::
  "'p pages_mixin \<Rightarrow> string \<Rightarrow> string \<Rightarrow> bool \<Rightarrow> exn + 'p option" where
  "page_by_title_body self space_key title convert_to_markdown =
     bind (get_all_spaces self 0 500) (\<lambda>spaces.
     bind (if is_dict spaces \<and> py_in ''results'' spaces = Inr True
           then bind (py_getitem spaces ''results'') keys_of
           else keys_of spaces) (\<lambda>space_keys.
     if JStr space_key \<notin> set space_keys then Inr None
     else
       bind (confluence_get_page_by_title self space_key title ''body.storage,version'') (\<lambda>page.
       if \<not> truthy page then Inr None
       else
         bind (py_getitem page ''body'') (\<lambda>b.
         bind (py_getitem b ''storage'') (\<lambda>st.
         bind (py_getitem st ''value'') (\<lambda>content.
         bind (process_html_content self content (JStr space_key))
           (\<lambda>(processed_html, processed_markdown).
         bind (from_api_response self page
                 \<lparr>base_url = config_url self, include_body = True,
                  content_override =
                    Some (if convert_to_markdown then processed_markdown else processed_html),
                  content_format =
                    Some (if \<not> convert_to_markdown then ''storage'' else ''markdown''),
                  is_cloud_arg = Some (config_is_cloud self)\<rparr>)
           (\<lambda>page_model. Inr (Some page_model)))))))))"

text \<open>
  \<^verbatim>\<open>PagesMixin.get_page_by_title\<close>: the four \<^verbatim>\<open>except\<close> clauses, in the order of the
  source, each returning \<^verbatim>\<open>None\<close>.
\<close>

definition get_page_by_title ::
  "'p pages_mixin \<Rightarrow> string \<Rightarrow> string \<Rightarrow> bool \<Rightarrow> exn + 'p option" where
  "get_page_by_title self space_key title convert_to_markdown =
     (case page_by_title_body self space_key title convert_to_markdown of
        Inr r \<Rightarrow> Inr r
      | Inl e \<Rightarrow>
          if is_KeyError e then Inr None
          else if is_RequestException e then Inr None
          else if is_ValueError e \<or> is_TypeError e then Inr None
          else Inr None)"

text \<open>The body of the loop over the child pages, lines 418 to 438.\<close>

definition child_page_model :: "'p pages_mixin \<Rightarrow> json \<Rightarrow> bool \<Rightarrow> json \<Rightarrow> exn + 'p" where
  "child_page_model self space_key convert_to_markdown page =
     bind (py_in ''body'' page) (\<lambda>has_body.
     bind (if has_body \<and> convert_to_markdown then
             bind (py_get page ''body'' (JDict [])) (\<lambda>b.
             bind (py_get b ''storage'' (JDict [])) (\<lambda>st.
             bind (py_get st ''value'' (JStr [])) (\<lambda>content.
             if truthy content then
               bind (process_html_content self content space_key)
                 (\<lambda>(_, processed_markdown). Inr (Some processed_markdown))
             else Inr None)))
           else Inr None) (\<lambda>override.
     from_api_response self page
       \<lparr>base_url = config_url self, include_body = True, content_override = override,
        content_format = Some (if convert_to_markdown then ''markdown'' else ''storage''),
        is_cloud_arg = None\<rparr>))"

text \<open>The body of the \<^verbatim>\<open>try\<close> statement of \<^verbatim>\<open>get_page_children\<close>.\<close>

definition page_children_body ::
  "'p pages_mixin \<Rightarrow> string \<Rightarrow> int \<Rightarrow> int \<Rightarrow> string \<Rightarrow> bool \<Rightarrow> exn + 'p list" where
  "page_children_body self page_id start limit expand convert_to_markdown =
     bind (get_page_child_by_type self page_id ''page'' start limit expand) (\<lambda>results.
     bind (if is_dict results \<and> py_in ''results'' results = Inr True
           then py_get results ''results'' (JList [])
           else Inr (if truthy results then results else JList [])) (\<lambda>child_pages.
     bind (if truthy child_pages
           then bind (py_first child_pages) (\<lambda>first.
                bind (py_in ''space'' first) (\<lambda>has_space.
                if has_space then
                  bind (py_get first ''space'' (JDict [])) (\<lambda>sp. py_get sp ''key'' (JStr []))
                else Inr (JStr [])))
           else Inr (JStr [])) (\<lambda>space_key.
     bind (py_iter child_pages)
       (for_each (child_page_model self space_key convert_to_markdown)))))"

text \<open>\<^verbatim>\<open>PagesMixin.get_page_children\<close>.\<close>

definition get_page_children ::
  "'p pages_mixin \<Rightarrow> string \<Rightarrow> int \<Rightarrow> int \<Rightarrow> string \<Rightarrow> bool \<Rightarrow> exn + 'p list" where
  "get_page_children self page_id start limit expand convert_to_markdown =
     (case page_children_body self page_id start limit expand convert_to_markdown of
        Inr page_models \<Rightarrow> Inr page_models
      | Inl e \<Rightarrow> Inr [])"

text \<open>
  \<^verbatim>\<open>PagesMixin.get_space_pages\<close>: no \<^verbatim>\<open>try\<close> statement. A page that has no \<^verbatim>\<open>space\<close>
  entry is given one before the model is built.
\<close>

definition space_page_model :: "'p pages_mixin \<Rightarrow> string \<Rightarrow> bool \<Rightarrow> json \<Rightarrow> exn + 'p" where
  "space_page_model self space_key convert_to_markdown page =
     bind (py_getitem page ''body'') (\<lambda>b.
     bind (py_getitem b ''storage'') (\<lambda>st.
     bind (py_getitem st ''value'') (\<lambda>content.
     bind (process_html_content self content (JStr space_key))
       (\<lambda>(processed_html, processed_markdown).
     bind (py_in ''space'' page) (\<lambda>has_space.
     from_api_response self
       (case page of
          JDict d \<Rightarrow>
            if has_space then page
            else JDict (d @ [(''space'', JDict [(''key'', JStr space_key),
                                                (''name'', JStr space_key)])])
        | _ \<Rightarrow> page)
       \<lparr>base_url = config_url self, include_body = True,
        content_override =
          Some (if convert_to_markdown then processed_markdown else processed_html),
        content_format = Some (if \<not> convert_to_markdown then ''storage'' else ''markdown''),
        is_cloud_arg = Some (config_is_cloud self)\<rparr>)))))"

definition get_space_pages ::
  "'p pages_mixin \<Rightarrow> string \<Rightarrow> int \<Rightarrow> int \<Rightarrow> bool \<Rightarrow> exn + 'p list" where
  "get_space_pages self space_key start limit convert_to_markdown =
     bind (get_all_pages_from_space self space_key start limit ''body.storage'') (\<lambda>pages.
     bind (py_iter pages) (for_each (space_page_model self space_key convert_to_markdown)))"

text \<open>\<^verbatim>\<open>PagesMixin.create_page\<close>.\<close>

definition create_page ::
  "'p pages_mixin \<Rightarrow> string \<Rightarrow> string \<Rightarrow> string \<Rightarrow> string option \<Rightarrow> bool \<Rightarrow> exn + 'p" where
  "create_page self space_key title body parent_id is_markdown =
     (case bind (if is_markdown then markdown_to_confluence_storage self body else Inr body)
             (\<lambda>storage_body.
           bind (confluence_create_page self space_key title storage_body parent_id ''storage'')
             (\<lambda>result.
           bind (py_get result ''id'' JNull) (\<lambda>page_id.
           if \<not> truthy page_id
           then Inl (ValueError ''Create page response did not contain an ID'')
           else get_page_content self page_id True))) of
        Inr page_model \<Rightarrow> Inr page_model
      | Inl e \<Rightarrow>
          Inl (Exception (''Failed to create page '' @ [CHR 0x27] @ title @ [CHR 0x27] @
                          '' in space '' @ space_key @ '': '') e))"

text \<open>\<^verbatim>\<open>PagesMixin.update_page\<close>.\<close>

definition update_kwargs ::
  "string \<Rightarrow> string \<Rightarrow> string \<Rightarrow> bool \<Rightarrow> string \<Rightarrow> string option \<Rightarrow> json" where
  "update_kwargs page_id title storage_body is_minor_edit version_comment parent_id =
     JDict ([(''page_id'', JStr page_id), (''title'', JStr title), (''body'', JStr storage_body),
             (''type'', JStr ''page''), (''representation'', JStr ''storage''),
             (''minor_edit'', JBool is_minor_edit), (''version_comment'', JStr version_comment),
             (''always_update'', JBool True)] @
            (case parent_id of
               Some p \<Rightarrow> if p \<noteq> [] then [(''parent_id'', JStr p)] else []
             | None \<Rightarrow> []))"

definition update_page ::
  "'p pages_mixin \<Rightarrow> string \<Rightarrow> string \<Rightarrow> string \<Rightarrow> bool \<Rightarrow> string \<Rightarrow> bool \<Rightarrow> string option
     \<Rightarrow> exn + 'p" where
  "update_page self page_id title body is_minor_edit version_comment is_markdown parent_id =
     (case bind (if is_markdown then markdown_to_confluence_storage self body else Inr body)
             (\<lambda>storage_body.
           bind (confluence_update_page self
                   (update_kwargs page_id title storage_body is_minor_edit version_comment
                      parent_id))
             (\<lambda>response. get_page_content self (JStr page_id) True)) of
        Inr page_model \<Rightarrow> Inr page_model
      | Inl e \<Rightarrow> Inl (Exception (''Failed to update page '' @ page_id @ '': '') e))"

subsection \<open>A client that is not authorised\<close>

text \<open>
  A mixin for examples: every call on the REST client fails with the \<^verbatim>\<open>HTTPError\<close>
  of the given status; the helpers return fixed values.
\<close>

definition failing_client :: "int \<Rightarrow> unit pages_mixin" where
  "failing_client status =
     \<lparr>get_page_by_id = (\<lambda>i e. Inl (HTTPError ''Client Error'' (Some status))),
      confluence_get_page_ancestors = (\<lambda>i. Inl (HTTPError ''Client Error'' (Some status))),
      get_all_spaces = (\<lambda>s l. Inl (HTTPError ''Client Error'' (Some status))),
      confluence_get_page_by_title = (\<lambda>s t e. Inl (HTTPError ''Client Error'' (Some status))),
      get_all_pages_from_space = (\<lambda>k s l e. Inl (HTTPError ''Client Error'' (Some status))),
      confluence_create_page = (\<lambda>s t b p r. Inl (HTTPError ''Client Error'' (Some status))),
      confluence_update_page = (\<lambda>k. Inl (HTTPError ''Client Error'' (Some status))),
      get_page_child_by_type = (\<lambda>i t s l e. Inl (HTTPError ''Client Error'' (Some status))),
      process_html_content = (\<lambda>c k. Inr ([], [])),
      markdown_to_confluence_storage = Inr,
      from_api_response = (\<lambda>p a. Inr ()),
      config_url = ''https://example.atlassian.net/wiki'',
      config_is_cloud = True\<rparr>"

text \<open>
  Two more: a client that lists the space \<^verbatim>\<open>SPACE\<close> and accepts the creation and the
  update of a page (answering with the page's id) while every other call fails with
  the given status, and a client whose lookups fail with a connection error, which is a
  \<^verbatim>\<open>RequestException\<close> but no \<^verbatim>\<open>HTTPError\<close>.
\<close>

definition spaces_then_fail :: "int \<Rightarrow> unit pages_mixin" where
  "spaces_then_fail status =
     (failing_client status)
       \<lparr>get_all_spaces := (\<lambda>s l. Inr (JDict [(''results'', JList [JDict [(''key'', JStr ''SPACE'')]])])),
        confluence_create_page := (\<lambda>s t b p r. Inr (JDict [(''id'', JStr ''123'')])),
        confluence_update_page := (\<lambda>k. Inr (JDict [(''id'', JStr ''123'')]))\<rparr>"

definition never_answers :: "unit pages_mixin" where
  "never_answers =
     (failing_client 500)
       \<lparr>confluence_get_page_ancestors := (\<lambda>i. Inl (RequestException ''Connection timed out'')),
        get_all_spaces := (\<lambda>s l. Inl (RequestException ''Connection timed out'')),
        get_page_child_by_type := (\<lambda>i t s l e. Inl (RequestException ''Connection timed out''))\<rparr>"

section \<open>Results\<close>

subsection \<open>The pattern scan\<close>

lemma is_digit_not_unit: "is_digit c \<Longrightarrow> c \<notin> set ''wdhm''"
  by (auto simp: is_digit_def)

lemma match_at_digits:
  assumes "ds \<noteq> []" "list_all is_digit ds" "u \<in> set ''wdhm''"
  shows "match_at (ds @ u # t) = Some ((ds, u), t)"
proof -
  have nd: "\<not> is_digit u" using assms(3) is_digit_not_unit by blast
  have tw: "takeWhile is_digit (ds @ u # t) = ds"
    using assms(2) nd by (simp add: takeWhile_append2 list_all_iff takeWhile_tail)
  have dw: "dropWhile is_digit (ds @ u # t) = u # t"
    using assms(2) nd by (simp add: dropWhile_append2 list_all_iff)
  show ?thesis using assms(1,3) by (simp add: match_at_def tw dw)
qed

lemma findall_match:
  assumes "ds \<noteq> []" "list_all is_digit ds" "u \<in> set ''wdhm''"
  shows "findall (ds @ u # t) = (ds, u) # findall t"
proof -
  obtain c cs where eq: "ds @ u # t = c # cs" by (cases ds) auto
  show ?thesis using match_at_digits[OF assms, of t] unfolding eq by simp
qed

lemma match_at_SomeD:
  assumes "match_at s = Some ((v, u), rest)"
  shows "v \<noteq> [] \<and> list_all is_digit v \<and> u \<in> set ''wdhm'' \<and> s = v @ u # rest"
proof -
  from assms obtain dw: "dropWhile is_digit s = u # rest" and v: "v = takeWhile is_digit s"
    and ne: "v \<noteq> []" and u: "u \<in> set ''wdhm''"
    by (auto simp: match_at_def split: list.splits if_splits)
  have "s = takeWhile is_digit s @ dropWhile is_digit s" by simp
  then have "s = v @ u # rest" by (simp only: dw v)
  moreover have "list_all is_digit v"
    unfolding v by (simp add: list_all_iff) (meson set_takeWhileD)
  ultimately show ?thesis using ne u by blast
qed

lemma findall_sound:
  "(v, u) \<in> set (findall s) \<Longrightarrow> v \<noteq> [] \<and> list_all is_digit v \<and> u \<in> set ''wdhm''"
proof (induction s rule: findall.induct)
  case 1
  then show ?case by simp
next
  case (2 c cs)
  show ?case
  proof (cases "match_at (c # cs)")
    case None
    with 2 show ?thesis by simp
  next
    case (Some a)
    obtain v' u' rest where a: "a = ((v', u'), rest)" by (metis prod.exhaust)
    from 2(3) Some a have "(v, u) = (v', u') \<or> (v, u) \<in> set (findall rest)" by simp
    then show ?thesis
    proof
      assume "(v, u) = (v', u')"
      then show ?thesis using match_at_SomeD[of "c # cs" v' u' rest] Some a by simp
    next
      assume "(v, u) \<in> set (findall rest)"
      then show ?thesis using 2(2)[OF Some, of "(v', u')" rest] a by simp
    qed
  qed
qed

lemma findall_concat_matches:
  "\<forall>(v, u) \<in> set ms. v \<noteq> [] \<and> list_all is_digit v \<and> u \<in> set ''wdhm'' \<Longrightarrow>
   findall (concat (map (\<lambda>(v, u). v @ [u]) ms)) = ms"
proof (induction ms)
  case Nil
  then show ?case by simp
next
  case (Cons m ms)
  obtain v u where m: "m = (v, u)" by (cases m)
  from Cons.prems m have vu: "v \<noteq> []" "list_all is_digit v" "u \<in> set ''wdhm''" by auto
  have "findall (v @ u # concat (map (\<lambda>(v, u). v @ [u]) ms)) =
        (v, u) # findall (concat (map (\<lambda>(v, u). v @ [u]) ms))"
    by (rule findall_match[OF vu])
  then show ?case using Cons m by simp
qed

lemma findall_matched_text: "findall (matched_text s) = findall s"
  unfolding matched_text_def
  by (rule findall_concat_matches) (use findall_sound in blast)

subsection \<open>Characters of the numeric literals\<close>

lemma unit_not_space: "c \<in> set ''wdhm'' \<Longrightarrow> \<not> is_space c"
  by (auto simp: is_space_def)

lemma digit_not_space: "is_digit c \<Longrightarrow> \<not> is_space c"
  by (auto simp: is_digit_def is_space_def)

lemma in_set_dropWhile: "c \<in> set xs \<Longrightarrow> \<not> P c \<Longrightarrow> c \<in> set (dropWhile P xs)"
  by (induction xs) auto

lemma in_set_strip: "c \<in> set s \<Longrightarrow> \<not> is_space c \<Longrightarrow> c \<in> set (strip s)"
  by (simp add: strip_def in_set_dropWhile)

lemma in_set_split_sign:
  "c \<in> set s \<Longrightarrow> c \<noteq> CHR ''-'' \<Longrightarrow> c \<noteq> CHR ''+'' \<Longrightarrow> c \<in> set (snd (split_sign s))"
  by (auto simp: split_sign_def split: list.splits)

lemma digitpart_chars: "digitpart s \<Longrightarrow> c \<in> set s \<Longrightarrow> is_digit c \<or> c = CHR ''_''"
  by (induction s rule: digitpart.induct) (auto split: if_splits)

lemma py_int_chars:
  assumes "py_int maxd s = Inr n" "c \<in> set s"
  shows "c \<notin> set ''wdhm''"
proof
  assume u: "c \<in> set ''wdhm''"
  then have "c \<in> set (strip s)" using assms(2) in_set_strip unit_not_space by blast
  moreover from u have "c \<noteq> CHR ''-''" "c \<noteq> CHR ''+''" by auto
  ultimately have "c \<in> set (snd (split_sign (strip s)))" by (rule in_set_split_sign)
  moreover from assms(1) have "digitpart (snd (split_sign (strip s)))"
    by (auto simp: py_int_def Let_def split: prod.splits if_splits)
  ultimately have "is_digit c \<or> c = CHR ''_''" using digitpart_chars by blast
  with u show False by (auto simp: is_digit_def)
qed

lemma strip_digits:
  assumes "list_all is_digit v"
  shows "strip v = v"
proof (cases "v = []")
  case True
  then show ?thesis by (simp add: strip_def)
next
  case False
  then have "is_digit (hd v)" "is_digit (last v)" using assms by (auto simp: list_all_iff)
  then have a: "\<not> is_space (hd v)" and b: "\<not> is_space (hd (rev v))"
    using False digit_not_space by (auto simp: hd_rev)
  have "dropWhile is_space v = v" using a False by (cases v) auto
  moreover have "dropWhile is_space (rev v) = rev v" using b False by (cases "rev v") auto
  ultimately show ?thesis by (simp add: strip_def)
qed

lemma digitpart_digits: "v \<noteq> [] \<Longrightarrow> list_all is_digit v \<Longrightarrow> digitpart v"
  by (induction v rule: digitpart.induct) (auto simp: is_digit_def)

lemma py_int_digits:
  assumes "v \<noteq> []" "list_all is_digit v"
  shows "py_int maxd v =
     (if 0 < maxd \<and> 640 < length v \<and> maxd < length v then Inl (ValueError ''int_max_str_digits'')
      else Inr (dec_value v))"
proof -
  have "is_digit (hd v)" using assms by (cases v) auto
  then have "split_sign v = (False, v)"
    using assms(1) by (cases v) (auto simp: split_sign_def is_digit_def)
  moreover have "filter (\<lambda>c. c \<noteq> CHR ''_'') v = v"
    using assms(2) by (auto simp: list_all_iff is_digit_def intro!: filter_True)
  ultimately show ?thesis
    using digitpart_digits[OF assms] by (simp add: py_int_def strip_digits[OF assms(2)])
qed

lemma py_float_error: "py_float s = Inl e \<Longrightarrow> e = ValueError ''float literal''"
  unfolding py_float_def Let_def
  by (simp split: prod.splits if_splits option.splits)

lemma parse_exponent_chars:
  assumes "parse_exponent s = Some e" "c \<in> set s"
  shows "is_digit c \<or> c \<in> set ''eE+-''"
proof (cases s)
  case Nil
  with assms show ?thesis by simp
next
  case (Cons x r)
  with assms(1) have x: "x = CHR ''e'' \<or> x = CHR ''E''"
    and ds: "list_all is_digit (snd (split_sign r))"
    by (auto simp: parse_exponent_def Let_def split: if_splits prod.splits)
  show ?thesis
  proof (cases "c = x \<or> c = CHR ''-'' \<or> c = CHR ''+''")
    case True
    with x show ?thesis by auto
  next
    case False
    with assms(2) Cons have "c \<in> set r" by auto
    with False have "c \<in> set (snd (split_sign r))" using in_set_split_sign by blast
    with ds show ?thesis by (auto simp: list_all_iff)
  qed
qed

lemma parse_decimal_exponent:
  "parse_decimal s = Some x \<Longrightarrow>
   parse_exponent (case dropWhile is_digit s of
                     c # r \<Rightarrow> if c = CHR ''.'' then dropWhile is_digit r else dropWhile is_digit s
                   | [] \<Rightarrow> []) \<noteq> None"
  by (simp add: parse_decimal_def Let_def split: if_splits option.splits)

lemma parse_decimal_chars:
  assumes "parse_decimal s = Some x" "c \<in> set s"
  shows "is_digit c \<or> c \<in> set ''.eE+-''"
proof (cases "is_digit c")
  case True
  then show ?thesis by simp
next
  case False
  define r1 where "r1 = dropWhile is_digit s"
  define r2 where "r2 = (case dropWhile is_digit s of
      c # r \<Rightarrow> if c = CHR ''.'' then dropWhile is_digit r else dropWhile is_digit s | [] \<Rightarrow> [])"
  have "parse_exponent r2 \<noteq> None"
    using parse_decimal_exponent[OF assms(1)] by (simp add: r2_def)
  then obtain e where e: "parse_exponent r2 = Some e" by blast
  have c1: "c \<in> set r1"
    unfolding r1_def using assms(2) False by (rule in_set_dropWhile)
  show ?thesis
  proof (cases r1)
    case Nil
    with c1 show ?thesis by simp
  next
    case (Cons d r)
    then have dw: "dropWhile is_digit s = d # r" by (simp add: r1_def)
    show ?thesis
    proof (cases "d = CHR ''.''")
      case dot: True
      have r2: "r2 = dropWhile is_digit r" by (simp add: r2_def dw dot)
      from c1 Cons have "c = d \<or> c \<in> set r" by simp
      then show ?thesis
      proof
        assume "c = d"
        with dot show ?thesis by simp
      next
        assume "c \<in> set r"
        then have "c \<in> set r2" unfolding r2 using False by (rule in_set_dropWhile)
        then have "is_digit c \<or> c \<in> set ''eE+-''" by (rule parse_exponent_chars[OF e])
        then show ?thesis by auto
      qed
    next
      case nodot: False
      have "r2 = r1" by (simp add: r2_def dw nodot r1_def)
      with c1 have "c \<in> set r2" by simp
      then have "is_digit c \<or> c \<in> set ''eE+-''" by (rule parse_exponent_chars[OF e])
      then show ?thesis by auto
    qed
  qed
qed

lemma lower_char_unit:
  assumes "c \<in> set ''wdhm''"
  shows "lower_char c = c"
proof -
  from assms consider "c = CHR ''w''" | "c = CHR ''d''" | "c = CHR ''h''" | "c = CHR ''m''"
    by auto
  then show ?thesis
    by cases (simp_all add: lower_char_def upper_chars_def lower_chars_def)
qed

lemma py_float_chars:
  assumes "py_float s = Inr f" "c \<in> set s"
  shows "c \<notin> set ''wdhm''"
proof
  assume u: "c \<in> set ''wdhm''"
  define r where "r = snd (split_sign (filter (\<lambda>c. c \<noteq> CHR ''_'') (strip s)))"
  from u have "c \<in> set (strip s)" using assms(2) in_set_strip unit_not_space by blast
  moreover from u have "c \<noteq> CHR ''_''" "c \<noteq> CHR ''-''" "c \<noteq> CHR ''+''" by auto
  ultimately have cr: "c \<in> set r" unfolding r_def by (intro in_set_split_sign) auto
  then have "lower_char c \<in> set (lower r)" by (simp add: lower_def)
  then have lr: "c \<in> set (lower r)" using lower_char_unit[OF u] by simp
  have "lower r = ''inf'' \<or> lower r = ''infinity'' \<or> lower r = ''nan'' \<or> parse_decimal r \<noteq> None"
    using assms(1) unfolding py_float_def Let_def r_def
    by (simp split: prod.splits if_splits option.splits; blast)
  then consider "lower r = ''inf''" | "lower r = ''infinity''" | "lower r = ''nan''"
    | x where "parse_decimal r = Some x"
    by blast
  then show False
  proof cases
    case 1
    with lr have "c \<in> set ''inf''" by simp
    with u show ?thesis by auto
  next
    case 2
    with lr have "c \<in> set ''infinity''" by simp
    with u show ?thesis by auto
  next
    case 3
    with lr have "c \<in> set ''nan''" by simp
    with u show ?thesis by auto
  next
    case 4 then show ?thesis using parse_decimal_chars[OF _ cr] u by (auto simp: is_digit_def)
  qed
qed

subsection \<open>The duration parser, step by step\<close>

lemma time_units_unit: "u \<in> set ''wdhm'' \<Longrightarrow> time_units u = Some (unit_seconds u)"
  by (auto simp: time_units_def unit_seconds_def)

lemma well_formed_findall: "well_formed_matches (findall s)"
  unfolding well_formed_matches_def using findall_sound by blast

lemma add_matches_total:
  assumes "well_formed_matches ms"
  shows "add_matches maxd t ms =
     (if \<exists>(v, u) \<in> set ms. over_limit maxd v then Inl (ValueError ''int_max_str_digits'')
      else Inr (t + sum_list (map (\<lambda>(v, u). dec_value v * unit_seconds u) ms)))"
  using assms
proof (induction ms arbitrary: t)
  case Nil
  then show ?case by simp
next
  case (Cons m ms)
  obtain v u where m: "m = (v, u)" by (cases m)
  from Cons.prems m have vu: "v \<noteq> []" "list_all is_digit v" "u \<in> set ''wdhm''"
    and wf: "well_formed_matches ms"
    by (auto simp: well_formed_matches_def)
  show ?case
  proof (cases "over_limit maxd v")
    case True
    then have "py_int maxd v = Inl (ValueError ''int_max_str_digits'')"
      using py_int_digits[OF vu(1,2), of maxd] by (simp add: over_limit_def)
    with True m show ?thesis by auto
  next
    case False
    then have "py_int maxd v = Inr (dec_value v)"
      using py_int_digits[OF vu(1,2), of maxd] by (auto simp: over_limit_def)
    then show ?thesis
      using False m time_units_unit[OF vu(3)] Cons.IH[OF wf, of "t + dec_value v * unit_seconds u"]
      by (simp add: algebra_simps)
  qed
qed

lemma py_int_error: "py_int maxd s = Inl e \<Longrightarrow> is_ValueError e"
  unfolding py_int_def Let_def by (auto split: prod.splits if_splits)

lemma findall_unit_char: "findall s \<noteq> [] \<Longrightarrow> \<exists>c \<in> set s. c \<in> set ''wdhm''"
proof (induction s rule: findall.induct)
  case 1
  then show ?case by simp
next
  case (2 c cs)
  show ?case
  proof (cases "match_at (c # cs)")
    case None
    with 2 show ?thesis by auto
  next
    case (Some a)
    obtain v u rest where a: "a = ((v, u), rest)" by (metis prod.exhaust)
    from match_at_SomeD[of "c # cs" v u rest] Some a
    have "u \<in> set ''wdhm''" and "c # cs = v @ u # rest" by auto
    then have "u \<in> set (c # cs)" by (metis in_set_conv_decomp)
    with \<open>u \<in> set ''wdhm''\<close> show ?thesis by blast
  qed
qed

lemma seconds_suffix_matches:
  assumes "findall s \<noteq> []"
  shows "seconds_suffix maxd s = None"
proof (cases "endswith_s s")
  case False
  then show ?thesis by (simp add: seconds_suffix_def)
next
  case True
  from findall_unit_char[OF assms] obtain c where c: "c \<in> set s" "c \<in> set ''wdhm''" by blast
  from True have s: "s = butlast s @ [CHR ''s'']"
    by (metis append_butlast_last_id endswith_s_def)
  from c(2) have "c \<noteq> CHR ''s''" by auto
  with c(1) s have "c \<in> set (butlast s)" by (metis Un_iff empty_iff empty_set set_ConsD set_append)
  then have "\<And>n. py_int maxd (butlast s) \<noteq> Inr n" using py_int_chars c(2) by blast
  then obtain e where e: "py_int maxd (butlast s) = Inl e" by (cases "py_int maxd (butlast s)") auto
  with py_int_error have "is_ValueError e" by blast
  with e True show ?thesis by (simp add: seconds_suffix_def)
qed

lemma raw_value_matches:
  assumes "findall s \<noteq> []"
  shows "raw_value s = Inr 60"
proof -
  from findall_unit_char[OF assms] obtain c where c: "c \<in> set s" "c \<in> set ''wdhm''" by blast
  then have "\<And>f. py_float s \<noteq> Inr f" using py_float_chars by blast
  then obtain e where e: "py_float s = Inl e" by (cases "py_float s") auto
  with py_float_error have "e = ValueError ''float literal''" by blast
  with e show ?thesis by (simp add: raw_value_def bind_def)
qed

lemma parse_time_spent_matches:
  assumes "findall s \<noteq> []"
  shows "parse_time_spent maxd s =
     bind (add_matches maxd 0 (findall s)) (\<lambda>t. Inr (if t = 0 then 60 else t))"
  by (simp add: parse_time_spent_def seconds_suffix_matches[OF assms] raw_value_matches[OF assms]
      if_distrib[of Inr] cong: if_cong)

lemma float_int_error:
  assumes "bind (py_float s) int_of_float = Inl e"
  shows "is_ValueError e \<or> e = OverflowError ''cannot convert float infinity to integer''"
proof (cases "py_float s")
  case (Inl e')
  with assms py_float_error[OF Inl] show ?thesis by (auto simp: bind_def)
next
  case (Inr f)
  with assms show ?thesis by (cases f) (auto simp: bind_def Let_def)
qed

lemma seconds_suffix_cases:
  "(\<exists>n. seconds_suffix maxd s = Some (Inr n) \<and>
        (if endswith_s s then attempt (py_int maxd (butlast s)) else None) = Some n) \<or>
   (seconds_suffix maxd s = None \<and>
        (if endswith_s s then attempt (py_int maxd (butlast s)) else None) = None)"
proof (cases "endswith_s s")
  case False
  then show ?thesis by (simp add: seconds_suffix_def)
next
  case True
  show ?thesis
  proof (cases "py_int maxd (butlast s)")
    case (Inl e)
    with py_int_error[OF Inl] True show ?thesis by (simp add: seconds_suffix_def)
  next
    case (Inr n)
    with True show ?thesis by (simp add: seconds_suffix_def)
  qed
qed

lemma parse_time_spent_cases:
  "parse_time_spent maxd s = Inr (spec_parse_time_spent maxd s) \<or>
   parse_time_spent maxd s = Inl (OverflowError ''cannot convert float infinity to integer'') \<or>
   parse_time_spent maxd s = Inl (ValueError ''int_max_str_digits'')"
proof -
  let ?total = "sum_list (map (\<lambda>(v, u). dec_value v * unit_seconds u) (findall s))"
  from seconds_suffix_cases[of maxd s] show ?thesis
  proof (elim disjE exE conjE)
    fix n
    assume "seconds_suffix maxd s = Some (Inr n)"
      "(if endswith_s s then attempt (py_int maxd (butlast s)) else None) = Some n"
    then show ?thesis by (simp add: parse_time_spent_def spec_parse_time_spent_def)
  next
    assume none: "seconds_suffix maxd s = None"
      "(if endswith_s s then attempt (py_int maxd (butlast s)) else None) = None"
    show ?thesis
    proof (cases "\<exists>(v, u) \<in> set (findall s). over_limit maxd v")
      case True
      then have "add_matches maxd 0 (findall s) = Inl (ValueError ''int_max_str_digits'')"
        using add_matches_total[OF well_formed_findall, of maxd 0 s] by simp
      then show ?thesis by (simp add: parse_time_spent_def none(1) bind_def)
    next
      case False
      then have am: "add_matches maxd 0 (findall s) = Inr ?total"
        using add_matches_total[OF well_formed_findall, of maxd 0 s] by simp
      show ?thesis
      proof (cases "?total = 0")
        case nz: False
        then show ?thesis
          by (simp add: parse_time_spent_def spec_parse_time_spent_def none am bind_def)
      next
        case z: True
        have p: "parse_time_spent maxd s = raw_value s"
          by (simp add: parse_time_spent_def none(1) am z bind_def)
        have sp: "spec_parse_time_spent maxd s =
            (case attempt (bind (py_float s) int_of_float) of Some n \<Rightarrow> n | None \<Rightarrow> 60)"
          by (simp add: spec_parse_time_spent_def none(2) z)
        show ?thesis
        proof (cases "bind (py_float s) int_of_float")
          case (Inr n)
          then show ?thesis by (simp add: p sp raw_value_def)
        next
          case (Inl e)
          from float_int_error[OF Inl] show ?thesis
          proof
            assume "is_ValueError e"
            then show ?thesis by (simp add: p sp raw_value_def Inl)
          next
            assume "e = OverflowError ''cannot convert float infinity to integer''"
            then show ?thesis by (simp add: p raw_value_def Inl)
          qed
        qed
      qed
    qed
  qed
qed

lemmas parse_defs = parse_time_spent_def seconds_suffix_def endswith_s_def match_at_def
  is_digit_def py_int_def strip_def is_space_def split_sign_def dec_value_def digit_val_def
  time_units_def bind_def raw_value_def py_float_def lower_def lower_char_def upper_chars_def
  lower_chars_def parse_decimal_def parse_exponent_def float_of_decimal_def to_binary64_def

subsection \<open>Visibility precedence\<close>

text \<open>
  C2. \<^verbatim>\<open>add_comment\<close> resolves the visibility in three tiers. With the global
  \<^verbatim>\<open>force_internal_comments\<close> flag set the comment is internal whatever the explicit
  value is, an explicit "public" included. Otherwise a \<^verbatim>\<open>visibility\<close> of \<^verbatim>\<open>None\<close> gives
  a public comment; otherwise "internal" in any letter case gives internal, "public" in
  any letter case gives public, and every other string gives internal.
\<close>

theorem visibility_precedence:
  "(force \<longrightarrow> should_be_internal force visibility) \<and>
   (\<not> force \<and> visibility = None \<longrightarrow> \<not> should_be_internal force visibility) \<and>
   (\<not> force \<and> visibility = Some v \<and> lower v = ''internal'' \<longrightarrow>
      should_be_internal force visibility) \<and>
   (\<not> force \<and> visibility = Some v \<and> lower v = ''public'' \<longrightarrow>
      \<not> should_be_internal force visibility) \<and>
   (\<not> force \<and> visibility = Some v \<and> lower v \<noteq> ''internal'' \<and> lower v \<noteq> ''public'' \<longrightarrow>
      should_be_internal force visibility)"
  by (simp add: should_be_internal_def)

theorem visibility_precedence_witness:
  "should_be_internal True (Some ''public'') \<and>
   \<not> should_be_internal False None \<and>
   should_be_internal False (Some ''INTERNAL'') \<and>
   \<not> should_be_internal False (Some ''Public'') \<and>
   should_be_internal False (Some ''agents only'')"
  using visibility_precedence [of True "Some ''public''" "''public''"]
    visibility_precedence [of False None "[]"]
    visibility_precedence [of False "Some ''INTERNAL''" "''INTERNAL''"]
    visibility_precedence [of False "Some ''Public''" "''Public''"]
    visibility_precedence [of False "Some ''agents only''" "''agents only''"]
  by (simp add: lower_def lower_char_def upper_chars_def lower_chars_def)

subsection \<open>The duration parser\<close>

text \<open>
  The examples of the specification and of \<^verbatim>\<open>tests/unit/jira/test_worklog.py\<close>, for
  every setting of the interpreter's digit limit.
\<close>

lemma parse_time_spent_examples:
  "parse_time_spent maxd ''1w 2d 3h 4m'' = Inr 788640"
  "parse_time_spent maxd ''1h 30m'' = Inr 5400"
  "parse_time_spent maxd ''invalid'' = Inr 60"
  "parse_time_spent maxd ''60s'' = Inr 60"
  "parse_time_spent maxd ''1d 6h'' = Inr 108000"
  by (simp_all add: parse_defs)

lemma parse_time_spent_numeric_examples:
  "parse_time_spent maxd ''60'' = Inr 60"
  "parse_time_spent maxd ''3600'' = Inr 3600"
  by (simp_all add: parse_defs floor_log2_def scaled_le_def round_half_even_def)

text \<open>
  Where the method returns, it returns what the stated algorithm gives: it agrees with
  \<open>spec_parse_time_spent\<close> on every string with no run of digits over the
  interpreter's limit and whose value as a float is not infinite.
\<close>

lemma parse_time_spent_agrees:
  assumes "\<forall>(v, u) \<in> set (findall s). \<not> over_limit maxd v"
    and "\<forall>neg. py_float s \<noteq> Inr (Infinite neg)"
  shows "parse_time_spent maxd s = Inr (spec_parse_time_spent maxd s)"
proof -
  have "parse_time_spent maxd s \<noteq> Inl (ValueError ''int_max_str_digits'')"
  proof
    assume a: "parse_time_spent maxd s = Inl (ValueError ''int_max_str_digits'')"
    have am: "add_matches maxd 0 (findall s) =
        Inr (sum_list (map (\<lambda>(v, u). dec_value v * unit_seconds u) (findall s)))"
      using add_matches_total[OF well_formed_findall, of maxd 0 s] assms(1) by auto
    from seconds_suffix_cases[of maxd s] show False
    proof (elim disjE exE conjE)
      fix n assume "seconds_suffix maxd s = Some (Inr n)"
      with a show False by (simp add: parse_time_spent_def)
    next
      assume "seconds_suffix maxd s = None"
      with a am have r: "raw_value s = Inl (ValueError ''int_max_str_digits'')"
        by (simp add: parse_time_spent_def bind_def split: if_splits)
      then show False
        by (cases "bind (py_float s) int_of_float")
          (auto simp: raw_value_def split: if_splits dest: float_int_error)
    qed
  qed
  moreover have "parse_time_spent maxd s \<noteq>
      Inl (OverflowError ''cannot convert float infinity to integer'')"
  proof
    assume a: "parse_time_spent maxd s =
      Inl (OverflowError ''cannot convert float infinity to integer'')"
    have am: "add_matches maxd 0 (findall s) =
        Inr (sum_list (map (\<lambda>(v, u). dec_value v * unit_seconds u) (findall s)))"
      using add_matches_total[OF well_formed_findall, of maxd 0 s] assms(1) by auto
    from seconds_suffix_cases[of maxd s] show False
    proof (elim disjE exE conjE)
      fix n assume "seconds_suffix maxd s = Some (Inr n)"
      with a show False by (simp add: parse_time_spent_def)
    next
      assume "seconds_suffix maxd s = None"
      with a am have r: "raw_value s =
          Inl (OverflowError ''cannot convert float infinity to integer'')"
        by (simp add: parse_time_spent_def bind_def split: if_splits)
      show False
      proof (cases "py_float s")
        case (Inl e)
        with r py_float_error[OF Inl] show False by (simp add: raw_value_def bind_def)
      next
        case (Inr f)
        with r assms(2) show False
          by (cases f) (auto simp: raw_value_def bind_def Let_def split: if_splits)
      qed
    qed
  qed
  ultimately show ?thesis using parse_time_spent_cases[of maxd s] by blast
qed

text \<open>
  C1. For every input string \<^verbatim>\<open>_parse_time_spent\<close> is to compute the seconds by the
  stated algorithm, whose last step is: when all parsing fails, return the default of
  60 seconds. On the string \<^verbatim>\<open>inf\<close> the stated algorithm gives 60: there is no \<open>s\<close>
  suffix, no match, and \<^verbatim>\<open>int(float("inf"))\<close> fails. The method returns nothing there:
  the failure is an \<^verbatim>\<open>OverflowError\<close>, which \<^verbatim>\<open>except ValueError\<close> does not catch.
\<close>

theorem parse_time_spent_misses_default:
  "spec_parse_time_spent maxd ''inf'' = 60 \<and>
   parse_time_spent maxd ''inf'' =
     Inl (OverflowError ''cannot convert float infinity to integer'')"
  by (simp add: spec_parse_time_spent_def parse_defs)

text \<open>
  C10. \<^verbatim>\<open>_parse_time_spent\<close> is to return an integer for every string and never to
  raise. It raises on the strings that \<^verbatim>\<open>float\<close> reads as an infinity, for instance
  \<^verbatim>\<open>inf\<close> and \<^verbatim>\<open>-Infinity\<close>, in any letter case and with white space around them.
\<close>

theorem parse_time_spent_raises:
  "parse_time_spent maxd ''inf'' =
     Inl (OverflowError ''cannot convert float infinity to integer'') \<and>
   parse_time_spent maxd ''-Infinity'' =
     Inl (OverflowError ''cannot convert float infinity to integer'') \<and>
   parse_time_spent maxd '' INF '' =
     Inl (OverflowError ''cannot convert float infinity to integer'')"
  by (simp add: parse_defs)

text \<open>
  C5. A string whose unit components sum to 0 falls through to the numeric fallback
  and from there to the default: with no seconds suffix taken and a zero sum the result
  is that of the fallback, and when there is at least one match the fallback never
  succeeds, so the result is 60. For \<^verbatim>\<open>0h\<close> the one match sums to 0, \<^verbatim>\<open>float\<close> rejects
  the string and the method returns 60; the bare \<^verbatim>\<open>0\<close> has no match, succeeds in the
  fallback and gives 0.
\<close>

theorem zero_sum_falls_through:
  "(seconds_suffix maxd s = None \<and> add_matches maxd 0 (findall s) = Inr 0 \<longrightarrow>
      parse_time_spent maxd s = raw_value s) \<and>
   (findall s \<noteq> [] \<and> add_matches maxd 0 (findall s) = Inr 0 \<longrightarrow>
      parse_time_spent maxd s = Inr 60) \<and>
   findall ''0h'' = [(''0'', CHR ''h'')] \<and>
   add_matches maxd 0 (findall ''0h'') = Inr 0 \<and>
   py_float ''0h'' = Inl (ValueError ''float literal'') \<and>
   parse_time_spent maxd ''0h'' = Inr 60 \<and>
   findall ''0'' = [] \<and>
   bind (py_float ''0'') int_of_float = Inr 0 \<and>
   parse_time_spent maxd ''0'' = Inr 0"
proof (intro conjI impI)
  show "parse_time_spent maxd s = raw_value s"
    if "seconds_suffix maxd s = None \<and> add_matches maxd 0 (findall s) = Inr 0"
    using that by (simp add: parse_time_spent_def bind_def)
  show "parse_time_spent maxd s = Inr 60"
    if "findall s \<noteq> [] \<and> add_matches maxd 0 (findall s) = Inr 0"
    using that by (simp add: parse_time_spent_matches bind_def)
qed (simp_all add: parse_defs)

theorem zero_sum_falls_through_witness:
  "seconds_suffix 4300 ''0d 0h'' = None \<and>
   findall ''0d 0h'' = [(''0'', CHR ''d''), (''0'', CHR ''h'')] \<and>
   add_matches 4300 0 (findall ''0d 0h'') = Inr 0 \<and>
   parse_time_spent 4300 ''0d 0h'' = raw_value ''0d 0h'' \<and>
   parse_time_spent 4300 ''0d 0h'' = Inr 60"
proof -
  have h1: "seconds_suffix 4300 ''0d 0h'' = None"
    by (simp add: seconds_suffix_def endswith_s_def)
  have h2: "findall ''0d 0h'' = [(''0'', CHR ''d''), (''0'', CHR ''h'')]"
    by (simp add: match_at_def is_digit_def)
  have h3: "add_matches 4300 0 (findall ''0d 0h'') = Inr 0"
    unfolding h2
    by (simp add: py_int_def strip_def is_space_def split_sign_def is_digit_def dec_value_def
        digit_val_def time_units_def)
  from zero_sum_falls_through [of 4300 "''0d 0h''"] h1 h3
  have "parse_time_spent 4300 ''0d 0h'' = raw_value ''0d 0h''" by blast
  moreover from zero_sum_falls_through [of 4300 "''0d 0h''"] h2 h3
  have "parse_time_spent 4300 ''0d 0h'' = Inr 60" by simp
  ultimately show ?thesis using h1 h2 h3 by simp
qed

text \<open>
  C7. The characters outside the matches are ignored: the matches of a string are those
  of its matched characters alone, and a string with at least one match gives the result
  that its matched characters alone give. Equal units are summed: the total is the sum
  over the list of all matches, one term per match, so \<^verbatim>\<open>1h 1h\<close> gives 7200.
\<close>

theorem unmatched_ignored_duplicates_summed:
  "findall (matched_text s) = findall s \<and>
   (findall s \<noteq> [] \<longrightarrow> parse_time_spent maxd s = parse_time_spent maxd (matched_text s)) \<and>
   (add_matches maxd 0 (findall s) = Inr t \<longrightarrow>
      t = sum_list (map (\<lambda>(v, u). dec_value v * unit_seconds u) (findall s))) \<and>
   parse_time_spent maxd ''1h 1h'' = Inr 7200"
proof (intro conjI impI)
  show "findall (matched_text s) = findall s"
    by (rule findall_matched_text)
  show "parse_time_spent maxd s = parse_time_spent maxd (matched_text s)" if "findall s \<noteq> []"
    using that by (simp add: parse_time_spent_matches findall_matched_text)
  show "t = sum_list (map (\<lambda>(v, u). dec_value v * unit_seconds u) (findall s))"
    if "add_matches maxd 0 (findall s) = Inr t"
    using that add_matches_total[OF well_formed_findall, of maxd 0 s] by (simp split: if_splits)
  show "parse_time_spent maxd ''1h 1h'' = Inr 7200"
    by (simp add: parse_defs)
qed

theorem unmatched_ignored_duplicates_summed_witness:
  "findall ''2h, 15m and 2h!'' \<noteq> [] \<and>
   matched_text ''2h, 15m and 2h!'' = ''2h15m2h'' \<and>
   parse_time_spent 4300 ''2h, 15m and 2h!'' = parse_time_spent 4300 ''2h15m2h'' \<and>
   add_matches 4300 0 (findall ''2h, 15m and 2h!'') = Inr 15300"
  using unmatched_ignored_duplicates_summed [of "''2h, 15m and 2h!''" 4300 15300]
  by (simp add: matched_text_def match_at_def is_digit_def py_int_def strip_def is_space_def
      split_sign_def dec_value_def digit_val_def time_units_def)

subsection \<open>Routing of a new comment\<close>

text \<open>
  C6. In \<^verbatim>\<open>add_comment\<close>, a comment resolved as internal is posted by the direct
  \<^verbatim>\<open>post\<close> request on the issue's comment URL, whose body carries the property
  \<^verbatim>\<open>sd.public.comment\<close> with value \<^verbatim>\<open>{"internal": true}\<close>, and the standard call is never
  made; the URL comes from \<^verbatim>\<open>resource_url("issue")\<close>. A comment resolved as public is
  posted by the standard \<^verbatim>\<open>issue_add_comment\<close> call alone, with the formatted text and
  no property. In both cases the method's result is built from the answer to that one
  request.
\<close>

theorem add_comment_route:
  "(should_be_internal (force_internal_comments self) visibility \<longrightarrow>
      (\<forall>c \<in> set (fst (add_comment self issue_key comment visibility)).
          \<forall>k t. c \<noteq> Call_issue_add_comment k t) \<and>
      (\<forall>base. resource_url self ''issue'' = Inr base \<longrightarrow>
          fst (add_comment self issue_key comment visibility) =
            [Call_resource_url ''issue'',
             Call_post (base @ ''/'' @ issue_key @ ''/comment'')
               (JDict [(''body'', JStr (markdown_to_jira self comment)),
                       (''properties'',
                          JList [JDict [(''key'', JStr ''sd.public.comment''),
                                        (''value'', JDict [(''internal'', JBool True)])]])])] \<and>
          snd (add_comment self issue_key comment visibility) =
            (case bind (post self (base @ ''/'' @ issue_key @ ''/comment'')
                          (comment_data (markdown_to_jira self comment)))
                    (added_comment self) of
               Inr r \<Rightarrow> Inr r
             | Inl e \<Rightarrow> Inl (Exception ''Error adding comment: '' e)))) \<and>
   (\<not> should_be_internal (force_internal_comments self) visibility \<longrightarrow>
      fst (add_comment self issue_key comment visibility) =
        [Call_issue_add_comment issue_key (markdown_to_jira self comment)] \<and>
      snd (add_comment self issue_key comment visibility) =
        (case bind (issue_add_comment self issue_key (markdown_to_jira self comment))
                (added_comment self) of
           Inr r \<Rightarrow> Inr r
         | Inl e \<Rightarrow> Inl (Exception ''Error adding comment: '' e)))"
  by (auto simp: add_comment_def Let_def comment_data_def split: sum.splits)

theorem add_comment_route_witness:
  "fst (add_comment (comments_mixin True posted_comment) ''TEST-123'' ''Test comment''
          (Some ''public'')) =
     [Call_resource_url ''issue'',
      Call_post ''https://test.atlassian.net/rest/api/2/issue/TEST-123/comment''
        (JDict [(''body'', JStr ''*This* is _Jira_ formatted''),
                (''properties'',
                   JList [JDict [(''key'', JStr ''sd.public.comment''),
                                 (''value'', JDict [(''internal'', JBool True)])]])])] \<and>
   fst (add_comment (comments_mixin False posted_comment) ''TEST-123'' ''Test comment'' None) =
     [Call_issue_add_comment ''TEST-123'' ''*This* is _Jira_ formatted'']"
  using add_comment_route [of "comments_mixin True posted_comment" "Some ''public''"
      "''TEST-123''" "''Test comment''"]
    add_comment_route [of "comments_mixin False posted_comment" None
      "''TEST-123''" "''Test comment''"]
  by (simp add: comments_mixin_def should_be_internal_def markdown_to_jira_def)

subsection \<open>Defaults for missing fields\<close>

lemma author_object:
  assumes "author_is_object d"
  shows "\<exists>a. (case map_of d ''author'' of Some v \<Rightarrow> v | None \<Rightarrow> JDict []) = JDict a \<and>
             (lacks_display_name d \<longrightarrow> map_of a ''displayName'' = None)"
proof (cases "map_of d ''author''")
  case None
  then show ?thesis by simp
next
  case (Some v)
  with assms obtain a where "v = JDict a" by (cases v) (auto simp: author_is_object_def)
  with Some show ?thesis by (simp add: lacks_display_name_def)
qed

lemma lacks_display_name_object: "lacks_display_name d \<Longrightarrow> author_is_object d"
  by (auto simp: lacks_display_name_def author_is_object_def split: option.splits json.splits)

lemma processed_comment_returns:
  assumes ct: "\<forall>x. \<exists>y. clean_text self x = Inr y" and pd: "\<forall>x. \<exists>y. parse_date self x = Inr y"
    and ao: "author_is_object d"
  shows "\<exists>body cr up author.
     clean_text self (case map_of d ''body'' of Some v \<Rightarrow> v | None \<Rightarrow> JStr []) = Inr body \<and>
     (lacks_display_name d \<longrightarrow> author = JStr ''Unknown'') \<and>
     processed_comment self (JDict d) =
       Inr (JDict [(''id'', case map_of d ''id'' of Some v \<Rightarrow> v | None \<Rightarrow> JNull),
                   (''body'', body), (''created'', JStr (str_date self cr)),
                   (''updated'', JStr (str_date self up)), (''author'', author)])"
proof -
  from ct obtain body where b: "clean_text self (case map_of d ''body'' of Some v \<Rightarrow> v | None \<Rightarrow> JStr []) = Inr body"
    by blast
  from pd obtain cr where c: "parse_date self (case map_of d ''created'' of Some v \<Rightarrow> v | None \<Rightarrow> JNull) = Inr cr"
    by blast
  from pd obtain up where u: "parse_date self (case map_of d ''updated'' of Some v \<Rightarrow> v | None \<Rightarrow> JNull) = Inr up"
    by blast
  from author_object[OF ao] obtain a where
    a: "(case map_of d ''author'' of Some v \<Rightarrow> v | None \<Rightarrow> JDict []) = JDict a"
    and l: "lacks_display_name d \<Longrightarrow> map_of a ''displayName'' = None"
    by blast
  define author where
    "author = (case map_of a ''displayName'' of Some v \<Rightarrow> v | None \<Rightarrow> JStr ''Unknown'')"
  have au: "author = JStr ''Unknown''" if "lacks_display_name d"
    using l[OF that] by (simp add: author_def)
  have "processed_comment self (JDict d) =
       Inr (JDict [(''id'', case map_of d ''id'' of Some v \<Rightarrow> v | None \<Rightarrow> JNull),
                   (''body'', body), (''created'', JStr (str_date self cr)),
                   (''updated'', JStr (str_date self up)), (''author'', author)])"
    unfolding processed_comment_def
    by (simp add: b c u a author_def bind_def)
  with b au show ?thesis by blast
qed

lemma processed_worklog_returns:
  assumes ct: "\<forall>x. \<exists>y. clean_text self x = Inr y" and pd: "\<forall>x. \<exists>y. parse_date self x = Inr y"
    and ao: "author_is_object d"
  shows "\<exists>comment cr up st author.
     clean_text self (case map_of d ''comment'' of Some v \<Rightarrow> v | None \<Rightarrow> JStr []) = Inr comment \<and>
     parse_date self (case map_of d ''created'' of Some v \<Rightarrow> v | None \<Rightarrow> JStr []) = Inr cr \<and>
     parse_date self (case map_of d ''updated'' of Some v \<Rightarrow> v | None \<Rightarrow> JStr []) = Inr up \<and>
     parse_date self (case map_of d ''started'' of Some v \<Rightarrow> v | None \<Rightarrow> JStr []) = Inr st \<and>
     (lacks_display_name d \<longrightarrow> author = JStr ''Unknown'') \<and>
     processed_worklog self (JDict d) =
       Inr (JDict [(''id'', case map_of d ''id'' of Some v \<Rightarrow> v | None \<Rightarrow> JNull),
                   (''comment'', comment),
                   (''created'', JStr (str_date self cr)),
                   (''updated'', JStr (str_date self up)),
                   (''started'', JStr (str_date self st)),
                   (''timeSpent'', case map_of d ''timeSpent'' of Some v \<Rightarrow> v | None \<Rightarrow> JStr []),
                   (''timeSpentSeconds'',
                      case map_of d ''timeSpentSeconds'' of Some v \<Rightarrow> v | None \<Rightarrow> JInt 0),
                   (''author'', author)])"
proof -
  from ct obtain comment where b: "clean_text self (case map_of d ''comment'' of Some v \<Rightarrow> v | None \<Rightarrow> JStr []) = Inr comment"
    by blast
  from pd obtain cr where c: "parse_date self (case map_of d ''created'' of Some v \<Rightarrow> v | None \<Rightarrow> JStr []) = Inr cr"
    by blast
  from pd obtain up where u: "parse_date self (case map_of d ''updated'' of Some v \<Rightarrow> v | None \<Rightarrow> JStr []) = Inr up"
    by blast
  from pd obtain st where s: "parse_date self (case map_of d ''started'' of Some v \<Rightarrow> v | None \<Rightarrow> JStr []) = Inr st"
    by blast
  from author_object[OF ao] obtain a where
    a: "(case map_of d ''author'' of Some v \<Rightarrow> v | None \<Rightarrow> JDict []) = JDict a"
    and l: "lacks_display_name d \<Longrightarrow> map_of a ''displayName'' = None"
    by blast
  define author where
    "author = (case map_of a ''displayName'' of Some v \<Rightarrow> v | None \<Rightarrow> JStr ''Unknown'')"
  have au: "author = JStr ''Unknown''" if "lacks_display_name d"
    using l[OF that] by (simp add: author_def)
  have "processed_worklog self (JDict d) =
       Inr (JDict [(''id'', case map_of d ''id'' of Some v \<Rightarrow> v | None \<Rightarrow> JNull),
                   (''comment'', comment),
                   (''created'', JStr (str_date self cr)),
                   (''updated'', JStr (str_date self up)),
                   (''started'', JStr (str_date self st)),
                   (''timeSpent'', case map_of d ''timeSpent'' of Some v \<Rightarrow> v | None \<Rightarrow> JStr []),
                   (''timeSpentSeconds'',
                      case map_of d ''timeSpentSeconds'' of Some v \<Rightarrow> v | None \<Rightarrow> JInt 0),
                   (''author'', author)])"
    unfolding processed_worklog_def
    by (simp add: b c u s a author_def bind_def)
  with b c u s au show ?thesis by blast
qed

text \<open>
  C8. The mapping of a response to a record puts defaults in place of missing fields.
  The helpers \<^verbatim>\<open>_clean_text\<close> and \<^verbatim>\<open>parse_date\<close> are not part of the two modules; they
  are taken not to raise, and \<^verbatim>\<open>_clean_text\<close> to map the empty string to itself (as it
  does in both test suites). Then a comment without a display name of the author maps
  to the author \<^verbatim>\<open>Unknown\<close>, and a comment without body to the empty string; a worklog
  without display name maps to \<^verbatim>\<open>Unknown\<close>, without \<^verbatim>\<open>comment\<close> or \<^verbatim>\<open>timeSpent\<close> to
  the empty string, without \<^verbatim>\<open>timeSpentSeconds\<close> to the number 0; and for a missing
  \<^verbatim>\<open>created\<close>, \<^verbatim>\<open>updated\<close> or \<^verbatim>\<open>started\<close> the empty string is what the date parser
  is given.
\<close>

theorem missing_fields_default:
  assumes "\<forall>x. \<exists>y. clean_text self x = Inr y" and "\<forall>x. \<exists>y. parse_date self x = Inr y"
    and "clean_text self (JStr []) = Inr (JStr [])"
  shows
   "(lacks_display_name c \<longrightarrow>
       (\<exists>r. processed_comment self (JDict c) = Inr (JDict r) \<and>
            map_of r ''author'' = Some (JStr ''Unknown''))) \<and>
    (author_is_object c \<and> map_of c ''body'' = None \<longrightarrow>
       (\<exists>r. processed_comment self (JDict c) = Inr (JDict r) \<and>
            map_of r ''body'' = Some (JStr []))) \<and>
    (lacks_display_name w \<longrightarrow>
       (\<exists>r. processed_worklog self (JDict w) = Inr (JDict r) \<and>
            map_of r ''author'' = Some (JStr ''Unknown''))) \<and>
    (author_is_object w \<and> map_of w ''comment'' = None \<longrightarrow>
       (\<exists>r. processed_worklog self (JDict w) = Inr (JDict r) \<and>
            map_of r ''comment'' = Some (JStr []))) \<and>
    (author_is_object w \<and> map_of w ''timeSpent'' = None \<longrightarrow>
       (\<exists>r. processed_worklog self (JDict w) = Inr (JDict r) \<and>
            map_of r ''timeSpent'' = Some (JStr []))) \<and>
    (author_is_object w \<and> map_of w ''timeSpentSeconds'' = None \<longrightarrow>
       (\<exists>r. processed_worklog self (JDict w) = Inr (JDict r) \<and>
            map_of r ''timeSpentSeconds'' = Some (JInt 0))) \<and>
    (author_is_object w \<and> k \<in> set [''created'', ''updated'', ''started''] \<and> map_of w k = None \<longrightarrow>
       (\<exists>r dt. processed_worklog self (JDict w) = Inr (JDict r) \<and>
            parse_date self (JStr []) = Inr dt \<and>
            map_of r k = Some (JStr (str_date self dt))))"
proof (intro conjI impI)
  show "\<exists>r. processed_comment self (JDict c) = Inr (JDict r) \<and>
            map_of r ''author'' = Some (JStr ''Unknown'')" if "lacks_display_name c"
    using processed_comment_returns[OF assms(1,2) lacks_display_name_object[OF that]] that
    by auto
  show "\<exists>r. processed_comment self (JDict c) = Inr (JDict r) \<and>
            map_of r ''body'' = Some (JStr [])" if "author_is_object c \<and> map_of c ''body'' = None"
    using processed_comment_returns[OF assms(1,2), of c] that assms(3) by auto
  show "\<exists>r. processed_worklog self (JDict w) = Inr (JDict r) \<and>
            map_of r ''author'' = Some (JStr ''Unknown'')" if "lacks_display_name w"
    using processed_worklog_returns[OF assms(1,2) lacks_display_name_object[OF that]] that
    by auto
  show "\<exists>r. processed_worklog self (JDict w) = Inr (JDict r) \<and>
            map_of r ''comment'' = Some (JStr [])"
    if "author_is_object w \<and> map_of w ''comment'' = None"
    using processed_worklog_returns[OF assms(1,2), of w] that assms(3) by auto
  show "\<exists>r. processed_worklog self (JDict w) = Inr (JDict r) \<and>
            map_of r ''timeSpent'' = Some (JStr [])"
    if "author_is_object w \<and> map_of w ''timeSpent'' = None"
    using processed_worklog_returns[OF assms(1,2), of w] that by auto
  show "\<exists>r. processed_worklog self (JDict w) = Inr (JDict r) \<and>
            map_of r ''timeSpentSeconds'' = Some (JInt 0)"
    if "author_is_object w \<and> map_of w ''timeSpentSeconds'' = None"
    using processed_worklog_returns[OF assms(1,2), of w] that by auto
  show "\<exists>r dt. processed_worklog self (JDict w) = Inr (JDict r) \<and>
            parse_date self (JStr []) = Inr dt \<and>
            map_of r k = Some (JStr (str_date self dt))"
    if "author_is_object w \<and> k \<in> set [''created'', ''updated'', ''started''] \<and> map_of w k = None"
    using processed_worklog_returns[OF assms(1,2), of w] that by auto
qed

theorem missing_fields_default_witness:
  "(\<exists>r. processed_comment (comments_mixin False JNull) (JDict comment_missing_fields) = Inr (JDict r) \<and>
        map_of r ''author'' = Some (JStr ''Unknown'')) \<and>
   (\<exists>r. processed_comment (comments_mixin False JNull) (JDict comment_missing_fields) = Inr (JDict r) \<and>
        map_of r ''body'' = Some (JStr [])) \<and>
   (\<exists>r. processed_worklog (comments_mixin False JNull) (JDict worklog_missing_fields) = Inr (JDict r) \<and>
        map_of r ''author'' = Some (JStr ''Unknown'')) \<and>
   (\<exists>r. processed_worklog (comments_mixin False JNull) (JDict worklog_missing_fields) = Inr (JDict r) \<and>
        map_of r ''comment'' = Some (JStr [])) \<and>
   (\<exists>r. processed_worklog (comments_mixin False JNull) (JDict worklog_missing_fields) = Inr (JDict r) \<and>
        map_of r ''timeSpent'' = Some (JStr [])) \<and>
   (\<exists>r. processed_worklog (comments_mixin False JNull) (JDict worklog_missing_fields) = Inr (JDict r) \<and>
        map_of r ''timeSpentSeconds'' = Some (JInt 0)) \<and>
   (\<exists>r. processed_worklog (comments_mixin False JNull) (JDict worklog_missing_fields) = Inr (JDict r) \<and>
        map_of r ''started'' = Some (JStr []))"
  using missing_fields_default [of "comments_mixin False JNull" comment_missing_fields
      worklog_missing_fields "''started''"]
  by (simp add: comments_mixin_def comment_missing_fields_def worklog_missing_fields_def
      lacks_display_name_def author_is_object_def)

subsection \<open>The limit on the comments returned\<close>

lemma for_each_Inr:
  "for_each f xs = Inr ys \<Longrightarrow>
   length ys = length xs \<and> (\<forall>i < length xs. f (xs ! i) = Inr (ys ! i))"
proof (induction xs arbitrary: ys)
  case Nil
  then show ?case by simp
next
  case (Cons x xs)
  from Cons.prems obtain y ys' where y: "f x = Inr y" and ys': "for_each f xs = Inr ys'"
    and ys: "ys = y # ys'"
    by (auto simp: bind_def split: sum.splits)
  from Cons.IH[OF ys'] have "length ys' = length xs" and "\<forall>i < length xs. f (xs ! i) = Inr (ys' ! i)"
    by auto
  with y ys show ?case by (auto simp: nth_Cons split: nat.splits)
qed

lemma slice_to_nonneg: "0 \<le> limit \<Longrightarrow> slice_to xs limit = take (min (nat limit) (length xs)) xs"
  by (simp add: slice_to_def min_def)

lemma processed_three_comments:
  "for_each (processed_comment (comments_mixin f r)) three_comments = Inr processed_three"
  by (simp add: three_comments_def processed_three_def processed_comment_def comments_mixin_def
      bind_def)

text \<open>
  C9, as amended. For a limit \<open>k\<close> that is not negative and a response with the list
  \<open>cs\<close> of \<open>n\<close> comments, \<^verbatim>\<open>get_issue_comments\<close> maps exactly the first \<open>min k n\<close>
  comments, in their order: the result has that length and its \<open>i\<close>-th entry is the
  mapping of the \<open>i\<close>-th comment (and the method raises if one of these mappings does).
\<close>

theorem limit_truncation:
  assumes "0 \<le> limit"
    and "issue_get_comments self issue_key = Inr (JDict d)"
    and "map_of d ''comments'' = Some (JList cs)"
  shows "get_issue_comments self issue_key limit =
     (case for_each (processed_comment self) (take (min (nat limit) (length cs)) cs) of
        Inr rs \<Rightarrow> Inr rs
      | Inl e \<Rightarrow> Inl (Exception ''Error getting comments: '' e)) \<and>
     (\<forall>rs. get_issue_comments self issue_key limit = Inr rs \<longrightarrow>
        length rs = min (nat limit) (length cs) \<and>
        (\<forall>i < length rs. processed_comment self (cs ! i) = Inr (rs ! i)))"
proof -
  let ?first = "take (min (nat limit) (length cs)) cs"
  have eq: "get_issue_comments self issue_key limit =
     (case for_each (processed_comment self) ?first of
        Inr rs \<Rightarrow> Inr rs
      | Inl e \<Rightarrow> Inl (Exception ''Error getting comments: '' e))"
    using assms by (simp add: get_issue_comments_def bind_def slice_to_nonneg)
  have "length rs = min (nat limit) (length cs) \<and>
        (\<forall>i < length rs. processed_comment self (cs ! i) = Inr (rs ! i))"
    if "get_issue_comments self issue_key limit = Inr rs" for rs
  proof -
    from that eq have "for_each (processed_comment self) ?first = Inr rs"
      by (simp split: sum.splits)
    from for_each_Inr[OF this] show ?thesis by auto
  qed
  with eq show ?thesis by blast
qed

theorem limit_truncation_witness:
  "get_issue_comments (comments_mixin False (JDict [(''comments'', JList three_comments)]))
     ''TEST-123'' 2 = Inr (take 2 processed_three)"
proof -
  let ?self = "comments_mixin False (JDict [(''comments'', JList three_comments)])"
  have first: "take (min (nat 2) (length three_comments)) three_comments = take 2 three_comments"
    by (simp add: three_comments_def)
  have mapped: "for_each (processed_comment ?self) (take 2 three_comments) =
      Inr (take 2 processed_three)"
    by (simp add: three_comments_def processed_three_def processed_comment_def comments_mixin_def
      bind_def)
  have "get_issue_comments ?self ''TEST-123'' 2 =
     (case for_each (processed_comment ?self)
             (take (min (nat 2) (length three_comments)) three_comments) of
        Inr rs \<Rightarrow> Inr rs
      | Inl e \<Rightarrow> Inl (Exception ''Error getting comments: '' e))"
    by (rule limit_truncation [of 2 ?self "''TEST-123''" "[(''comments'', JList three_comments)]"
          three_comments, THEN conjunct1])
      (simp_all add: comments_mixin_def)
  then show ?thesis
    by (simp only: first mapped sum.case)
qed

text \<open>
  C9 as stated has no restriction on the limit. With the limit \<open>-1\<close> the slice
  \<^verbatim>\<open>[:limit]\<close> drops the last comment: of three comments the method returns the first
  two, while \<open>min k n\<close> is \<open>-1\<close>.
\<close>

theorem limit_truncation_counterexample:
  "get_issue_comments (comments_mixin False (JDict [(''comments'', JList three_comments)]))
     ''TEST-123'' (- 1) = Inr (take 2 processed_three) \<and>
   length (take 2 processed_three) = 2 \<and>
   min (- 1) (int (length three_comments)) = - 1"
  by (simp add: get_issue_comments_def comments_mixin_def bind_def slice_to_def three_comments_def
      processed_three_def processed_comment_def)

subsection \<open>Errors of the page operations\<close>

lemmas page_eval = failing_client_def spaces_then_fail_def never_answers_def str_int_def

lemma http_error_clause_auth:
  "status = 401 \<or> status = 403 \<Longrightarrow>
   http_error_clause (HTTPError msg (Some status)) =
     MCPAtlassianAuthenticationError
       (''Authentication failed for Confluence API ('' @ str_int status @ ''). '' @
        ''Token may be expired or invalid. Please verify credentials.'')
       (HTTPError msg (Some status))"
  by auto

lemma get_page_by_title_total:
  "get_page_by_title self space_key title convert_to_markdown =
     (case page_by_title_body self space_key title convert_to_markdown of
        Inr r \<Rightarrow> Inr r | Inl e \<Rightarrow> Inr None)"
  by (simp add: get_page_by_title_def split: sum.splits)

lemma get_page_children_total:
  "get_page_children self pid start limit expand conv =
     (case page_children_body self pid start limit expand conv of
        Inr ms \<Rightarrow> Inr ms | Inl e \<Rightarrow> Inr [])"
  by (simp add: get_page_children_def)

lemma page_by_title_second_call:
  assumes "get_all_spaces self 0 500 = Inr spaces"
    and "confluence_get_page_by_title self space_key title ''body.storage,version'' = Inl e"
  shows "get_page_by_title self space_key title convert_to_markdown = Inr None"
proof -
  have "page_by_title_body self space_key title convert_to_markdown = Inr None \<or>
        (\<exists>e'. page_by_title_body self space_key title convert_to_markdown = Inl e')"
    unfolding page_by_title_body_def using assms
    by (cases "if is_dict spaces \<and> py_in ''results'' spaces = Inr True
               then bind (py_getitem spaces ''results'') keys_of else keys_of spaces")
       (simp_all add: bind_def)
  then show ?thesis by (auto simp: get_page_by_title_total)
qed

text \<open>
  C3, as amended. When the call on the REST client fails with an \<^verbatim>\<open>HTTPError\<close> of
  status 401 or 403, \<^verbatim>\<open>get_page_content\<close> and \<^verbatim>\<open>get_page_ancestors\<close> raise
  \<^verbatim>\<open>MCPAtlassianAuthenticationError\<close> with the HTTP error as its cause. The other
  operations do not: \<^verbatim>\<open>get_page_by_title\<close> returns \<^verbatim>\<open>None\<close> and \<^verbatim>\<open>get_page_children\<close> the
  empty list, \<^verbatim>\<open>get_space_pages\<close> lets the HTTP error through unchanged, and
  \<^verbatim>\<open>create_page\<close> and \<^verbatim>\<open>update_page\<close> raise a generic \<^verbatim>\<open>Exception\<close> around it (around
  the authentication error when it is their closing \<^verbatim>\<open>get_page_content\<close> that fails).
\<close>

theorem auth_error_classification:
  assumes "status = 401 \<or> status = 403" and "e = HTTPError msg (Some status)"
  shows
   "(get_page_by_id self page_id ''body.storage,version,space,children.attachment'' = Inl e \<longrightarrow>
       get_page_content self page_id conv = Inl (http_error_clause e)) \<and>
    (confluence_get_page_ancestors self pid = Inl e \<longrightarrow>
       get_page_ancestors self pid = Inl (http_error_clause e)) \<and>
    http_error_clause e =
       MCPAtlassianAuthenticationError
         (''Authentication failed for Confluence API ('' @ str_int status @ ''). '' @
          ''Token may be expired or invalid. Please verify credentials.'') e \<and>
    (get_all_spaces self 0 500 = Inl e \<longrightarrow>
       get_page_by_title self space_key title conv = Inr None) \<and>
    (get_all_spaces self 0 500 = Inr spaces \<and>
     confluence_get_page_by_title self space_key title ''body.storage,version'' = Inl e \<longrightarrow>
       get_page_by_title self space_key title conv = Inr None) \<and>
    (get_page_child_by_type self pid ''page'' start limit expand = Inl e \<longrightarrow>
       get_page_children self pid start limit expand conv = Inr []) \<and>
    (get_all_pages_from_space self space_key start limit ''body.storage'' = Inl e \<longrightarrow>
       get_space_pages self space_key start limit conv = Inl e) \<and>
    ((if is_markdown then markdown_to_confluence_storage self body else Inr body) = Inr storage_body \<and>
     confluence_create_page self space_key title storage_body parent_id ''storage'' = Inl e \<longrightarrow>
       create_page self space_key title body parent_id is_markdown =
         Inl (Exception (''Failed to create page '' @ [CHR 0x27] @ title @ [CHR 0x27] @
                         '' in space '' @ space_key @ '': '') e)) \<and>
    ((if is_markdown then markdown_to_confluence_storage self body else Inr body) = Inr storage_body \<and>
     confluence_update_page self
       (update_kwargs pid title storage_body minor version_comment parent_id) = Inl e \<longrightarrow>
       update_page self pid title body minor version_comment is_markdown parent_id =
         Inl (Exception (''Failed to update page '' @ pid @ '': '') e)) \<and>
    ((if is_markdown then markdown_to_confluence_storage self body else Inr body) = Inr storage_body \<and>
     confluence_update_page self
       (update_kwargs pid title storage_body minor version_comment parent_id) = Inr response \<and>
     get_page_by_id self (JStr pid) ''body.storage,version,space,children.attachment'' = Inl e \<longrightarrow>
       update_page self pid title body minor version_comment is_markdown parent_id =
         Inl (Exception (''Failed to update page '' @ pid @ '': '') (http_error_clause e))) \<and>
    ((if is_markdown then markdown_to_confluence_storage self body else Inr body) = Inr storage_body \<and>
     confluence_create_page self space_key title storage_body parent_id ''storage'' = Inr created \<and>
     py_get created ''id'' JNull = Inr new_id \<and> truthy new_id \<and>
     get_page_by_id self new_id ''body.storage,version,space,children.attachment'' = Inl e \<longrightarrow>
       create_page self space_key title body parent_id is_markdown =
         Inl (Exception (''Failed to create page '' @ [CHR 0x27] @ title @ [CHR 0x27] @
                         '' in space '' @ space_key @ '': '') (http_error_clause e)))"
proof (intro conjI impI)
  show "http_error_clause e =
       MCPAtlassianAuthenticationError
         (''Authentication failed for Confluence API ('' @ str_int status @ ''). '' @
          ''Token may be expired or invalid. Please verify credentials.'') e"
    unfolding assms(2) by (rule http_error_clause_auth[OF assms(1)])
  show "get_page_content self page_id conv = Inl (http_error_clause e)"
    if "get_page_by_id self page_id ''body.storage,version,space,children.attachment'' = Inl e"
    using that assms(2) by (simp add: get_page_content_def bind_def)
  show "get_page_ancestors self pid = Inl (http_error_clause e)"
    if "confluence_get_page_ancestors self pid = Inl e"
    using that assms(2) by (simp add: get_page_ancestors_def bind_def)
  show "get_page_by_title self space_key title conv = Inr None"
    if "get_all_spaces self 0 500 = Inl e"
    using that by (simp add: get_page_by_title_total page_by_title_body_def bind_def)
  show "get_page_by_title self space_key title conv = Inr None"
    if "get_all_spaces self 0 500 = Inr spaces \<and>
        confluence_get_page_by_title self space_key title ''body.storage,version'' = Inl e"
    using that page_by_title_second_call by blast
  show "get_page_children self pid start limit expand conv = Inr []"
    if "get_page_child_by_type self pid ''page'' start limit expand = Inl e"
    using that by (simp add: get_page_children_def page_children_body_def bind_def)
  show "get_space_pages self space_key start limit conv = Inl e"
    if "get_all_pages_from_space self space_key start limit ''body.storage'' = Inl e"
    using that by (simp add: get_space_pages_def bind_def)
  show "create_page self space_key title body parent_id is_markdown =
         Inl (Exception (''Failed to create page '' @ [CHR 0x27] @ title @ [CHR 0x27] @
                         '' in space '' @ space_key @ '': '') e)"
    if "(if is_markdown then markdown_to_confluence_storage self body else Inr body) = Inr storage_body \<and>
        confluence_create_page self space_key title storage_body parent_id ''storage'' = Inl e"
    using that by (simp add: create_page_def bind_def)
  show "update_page self pid title body minor version_comment is_markdown parent_id =
         Inl (Exception (''Failed to update page '' @ pid @ '': '') e)"
    if "(if is_markdown then markdown_to_confluence_storage self body else Inr body) = Inr storage_body \<and>
        confluence_update_page self
          (update_kwargs pid title storage_body minor version_comment parent_id) = Inl e"
    using that by (simp add: update_page_def bind_def)
  show "update_page self pid title body minor version_comment is_markdown parent_id =
         Inl (Exception (''Failed to update page '' @ pid @ '': '') (http_error_clause e))"
    if "(if is_markdown then markdown_to_confluence_storage self body else Inr body) = Inr storage_body \<and>
        confluence_update_page self
          (update_kwargs pid title storage_body minor version_comment parent_id) = Inr response \<and>
        get_page_by_id self (JStr pid) ''body.storage,version,space,children.attachment'' = Inl e"
    using that assms(2) by (simp add: update_page_def get_page_content_def bind_def)
  show "create_page self space_key title body parent_id is_markdown =
         Inl (Exception (''Failed to create page '' @ [CHR 0x27] @ title @ [CHR 0x27] @
                         '' in space '' @ space_key @ '': '') (http_error_clause e))"
    if "(if is_markdown then markdown_to_confluence_storage self body else Inr body) = Inr storage_body \<and>
        confluence_create_page self space_key title storage_body parent_id ''storage'' = Inr created \<and>
        py_get created ''id'' JNull = Inr new_id \<and> truthy new_id \<and>
        get_page_by_id self new_id ''body.storage,version,space,children.attachment'' = Inl e"
    using that assms(2) by (simp add: create_page_def get_page_content_def bind_def)
qed

theorem auth_error_classification_witness:
  "get_page_content (failing_client 401) (JStr ''123'') True =
     Inl (MCPAtlassianAuthenticationError
            (''Authentication failed for Confluence API (401). '' @
             ''Token may be expired or invalid. Please verify credentials.'')
            (HTTPError ''Client Error'' (Some 401))) \<and>
   get_page_ancestors (failing_client 401) ''123'' =
     Inl (MCPAtlassianAuthenticationError
            (''Authentication failed for Confluence API (401). '' @
             ''Token may be expired or invalid. Please verify credentials.'')
            (HTTPError ''Client Error'' (Some 401))) \<and>
   get_page_by_title (failing_client 401) ''SPACE'' ''Title'' True = Inr None \<and>
   get_page_by_title (spaces_then_fail 401) ''SPACE'' ''Title'' True = Inr None \<and>
   get_page_children (failing_client 401) ''123'' 0 25 ''version'' True = Inr [] \<and>
   get_space_pages (failing_client 401) ''SPACE'' 0 25 True =
     Inl (HTTPError ''Client Error'' (Some 401)) \<and>
   create_page (failing_client 401) ''SPACE'' ''Title'' ''text'' None True =
     Inl (Exception (''Failed to create page '' @ [CHR 0x27] @ ''Title'' @ [CHR 0x27] @
                     '' in space SPACE: '')
            (HTTPError ''Client Error'' (Some 401))) \<and>
   update_page (failing_client 401) ''123'' ''Title'' ''text'' False [] True None =
     Inl (Exception ''Failed to update page 123: '' (HTTPError ''Client Error'' (Some 401))) \<and>
   update_page (spaces_then_fail 401) ''123'' ''Title'' ''text'' False [] True None =
     Inl (Exception ''Failed to update page 123: ''
            (MCPAtlassianAuthenticationError
               (''Authentication failed for Confluence API (401). '' @
                ''Token may be expired or invalid. Please verify credentials.'')
               (HTTPError ''Client Error'' (Some 401)))) \<and>
   create_page (spaces_then_fail 401) ''SPACE'' ''Title'' ''text'' None True =
     Inl (Exception (''Failed to create page '' @ [CHR 0x27] @ ''Title'' @ [CHR 0x27] @
                     '' in space SPACE: '')
            (MCPAtlassianAuthenticationError
               (''Authentication failed for Confluence API (401). '' @
                ''Token may be expired or invalid. Please verify credentials.'')
               (HTTPError ''Client Error'' (Some 401))))"
  using auth_error_classification [where status = 401 and msg = "''Client Error''"
      and e = "HTTPError ''Client Error'' (Some 401)" and self = "failing_client 401"
      and page_id = "JStr ''123''" and pid = "''123''" and conv = True
      and space_key = "''SPACE''" and title = "''Title''" and spaces = "JNull"
      and start = 0 and limit = 25 and expand = "''version''"
      and is_markdown = True and body = "''text''" and storage_body = "''text''"
      and parent_id = None and minor = False and version_comment = "[]"
      and response = "JNull" and created = "JNull" and new_id = "JNull"]
    auth_error_classification [where status = 401 and msg = "''Client Error''"
      and e = "HTTPError ''Client Error'' (Some 401)" and self = "spaces_then_fail 401"
      and page_id = "JStr ''123''" and pid = "''123''" and conv = True
      and space_key = "''SPACE''" and title = "''Title''" and spaces = "JDict [(''results'', JList [JDict [(''key'', JStr ''SPACE'')]])]"
      and start = 0 and limit = 25 and expand = "''version''"
      and is_markdown = True and body = "''text''" and storage_body = "''text''"
      and parent_id = None and minor = False and version_comment = "[]"
      and response = "JDict [(''id'', JStr ''123'')]"
      and created = "JDict [(''id'', JStr ''123'')]" and new_id = "JStr ''123''"]
  by (simp add: page_eval)

text \<open>
  C3 as stated speaks of every page operation. With a client that answers 401 or 403,
  \<^verbatim>\<open>get_page_children\<close> returns the empty list and \<^verbatim>\<open>get_page_by_title\<close> returns
  \<^verbatim>\<open>None\<close>; no authentication error is raised.
\<close>

theorem auth_error_classification_counterexample:
  "get_page_children (failing_client 401) ''123'' 0 25 ''version'' True = Inr [] \<and>
   get_page_by_title (failing_client 403) ''SPACE'' ''Title'' True = Inr None"
  by (simp add: get_page_children_def page_children_body_def get_page_by_title_def
      page_by_title_body_def failing_client_def bind_def)

text \<open>
  C4, as amended. \<^verbatim>\<open>get_page_children\<close> and \<^verbatim>\<open>get_page_by_title\<close> never raise: an
  exception of the client (any exception of the \<^verbatim>\<open>try\<close> body) is swallowed and the empty
  list, respectively \<^verbatim>\<open>None\<close>, is returned. \<^verbatim>\<open>get_page_ancestors\<close> swallows every
  exception of the client that is no \<^verbatim>\<open>HTTPError\<close> and returns the empty list; an
  \<^verbatim>\<open>HTTPError\<close> leaves the method, as \<^verbatim>\<open>MCPAtlassianAuthenticationError\<close> for status
  401 or 403 and unchanged otherwise.
\<close>

theorem best_effort_lookups:
  "(\<exists>ms. get_page_children self pid start limit expand conv = Inr ms) \<and>
   (get_page_child_by_type self pid ''page'' start limit expand = Inl e \<longrightarrow>
      get_page_children self pid start limit expand conv = Inr []) \<and>
   (\<exists>r. get_page_by_title self space_key title conv = Inr r) \<and>
   (get_all_spaces self 0 500 = Inl e \<longrightarrow>
      get_page_by_title self space_key title conv = Inr None) \<and>
   (get_all_spaces self 0 500 = Inr spaces \<and>
    confluence_get_page_by_title self space_key title ''body.storage,version'' = Inl e \<longrightarrow>
      get_page_by_title self space_key title conv = Inr None) \<and>
   (confluence_get_page_ancestors self pid = Inl e \<and> \<not> is_HTTPError e \<longrightarrow>
      get_page_ancestors self pid = Inr []) \<and>
   (confluence_get_page_ancestors self pid = Inl e \<and> is_HTTPError e \<longrightarrow>
      get_page_ancestors self pid = Inl (http_error_clause e))"
proof (intro conjI impI)
  show "\<exists>ms. get_page_children self pid start limit expand conv = Inr ms"
    by (simp add: get_page_children_total split: sum.splits)
  show "get_page_children self pid start limit expand conv = Inr []"
    if "get_page_child_by_type self pid ''page'' start limit expand = Inl e"
    using that by (simp add: get_page_children_total page_children_body_def bind_def)
  show "\<exists>r. get_page_by_title self space_key title conv = Inr r"
    by (simp add: get_page_by_title_total split: sum.splits)
  show "get_page_by_title self space_key title conv = Inr None"
    if "get_all_spaces self 0 500 = Inl e"
    using that by (simp add: get_page_by_title_total page_by_title_body_def bind_def)
  show "get_page_by_title self space_key title conv = Inr None"
    if "get_all_spaces self 0 500 = Inr spaces \<and>
        confluence_get_page_by_title self space_key title ''body.storage,version'' = Inl e"
    using that page_by_title_second_call by blast
  show "get_page_ancestors self pid = Inr []"
    if "confluence_get_page_ancestors self pid = Inl e \<and> \<not> is_HTTPError e"
    using that by (simp add: get_page_ancestors_def bind_def)
  show "get_page_ancestors self pid = Inl (http_error_clause e)"
    if "confluence_get_page_ancestors self pid = Inl e \<and> is_HTTPError e"
    using that by (simp add: get_page_ancestors_def bind_def)
qed

theorem best_effort_lookups_witness:
  "get_page_children never_answers ''123'' 0 25 ''version'' True = Inr [] \<and>
   get_page_by_title never_answers ''SPACE'' ''Title'' True = Inr None \<and>
   get_page_by_title (spaces_then_fail 500) ''SPACE'' ''Title'' True = Inr None \<and>
   get_page_ancestors never_answers ''123'' = Inr [] \<and>
   get_page_ancestors (failing_client 500) ''123'' = Inl (HTTPError ''Client Error'' (Some 500))"
  using best_effort_lookups [where self = "never_answers" and pid = "''123''" and start = 0
      and limit = 25 and expand = "''version''" and conv = True and e = "RequestException ''Connection timed out''"
      and space_key = "''SPACE''" and title = "''Title''" and spaces = "JNull"]
    best_effort_lookups [where self = "spaces_then_fail 500" and pid = "''123''" and start = 0
      and limit = 25 and expand = "''version''" and conv = True and e = "HTTPError ''Client Error'' (Some 500)"
      and space_key = "''SPACE''" and title = "''Title''" and spaces = "JDict [(''results'', JList [JDict [(''key'', JStr ''SPACE'')]])]"]
    best_effort_lookups [where self = "failing_client 500" and pid = "''123''" and start = 0
      and limit = 25 and expand = "''version''" and conv = True and e = "HTTPError ''Client Error'' (Some 500)"
      and space_key = "''SPACE''" and title = "''Title''" and spaces = "JNull"]
  by (simp add: page_eval)

text \<open>
  C4 as stated includes \<^verbatim>\<open>get_page_ancestors\<close> for every exception. An \<^verbatim>\<open>HTTPError\<close>
  of the client is not swallowed there: status 500 comes out unchanged, status 401 as
  the authentication error.
\<close>

theorem best_effort_lookups_counterexample:
  "get_page_ancestors (failing_client 500) ''123'' = Inl (HTTPError ''Client Error'' (Some 500)) \<and>
   get_page_ancestors (failing_client 401) ''123'' =
     Inl (MCPAtlassianAuthenticationError
            (''Authentication failed for Confluence API (401). '' @
             ''Token may be expired or invalid. Please verify credentials.'')
            (HTTPError ''Client Error'' (Some 401)))"
  by (simp add: get_page_ancestors_def failing_client_def bind_def str_int_def)

end
